theory Spec2Isabelle
  imports Complex_Main "HOL-Library.AList"
begin

section \<open>Python values and errors\<close>

text \<open>
  A Python \<open>str\<close> is a \<open>string\<close>; characters outside ASCII are held as their UTF-8
  bytes. Every character the code inspects (\<open>_\<close>, \<open>.\<close>, \<open>l\<close>, \<open>L\<close>, \<open>r\<close>, \<open>R\<close>,
  the newline, the letters of the reserved prefix) is ASCII, and an ASCII byte never occurs
  inside a multi-byte UTF-8 sequence, so prefix and suffix tests on bytes agree with the
  tests on code points. Python's \<open>None\<close> is \<open>None\<close> of an option type. A \<open>float\<close> is a
  \<open>real\<close>. A reference to a host object (\<open>bpy.types.Object\<close>) is its identity, a \<open>nat\<close>.
\<close>

datatype py_error = KeyError | ValueError | TypeError | AttributeError

datatype pyval = PBool bool | PInt int | PFloat real | PStr string | PObj nat

definition startswith :: "string \<Rightarrow> string \<Rightarrow> bool" where
  "startswith s p = (take (length p) s = p)"

section \<open>Geometry utilities of \<open>ArmatureObjectABC\<close>\<close>

subsection \<open>\<open>to_bone_suffix\<close>\<close>

definition is_separator :: "char \<Rightarrow> bool" where
  "is_separator c = (c = CHR ''_'' \<or> c = CHR ''.'')"

definition is_side_letter :: "char \<Rightarrow> bool" where
  "is_side_letter c = (c = CHR ''l'' \<or> c = CHR ''L'' \<or> c = CHR ''r'' \<or> c = CHR ''R'')"

text \<open>
  The anchor \<open>$\<close> of Python's \<open>re\<close> (no flags) matches at the end of the string and
  also just before a newline that is the last character of the string.
\<close>

definition at_dollar :: "string \<Rightarrow> bool" where
  "at_dollar rest = (rest = [] \<or> rest = [CHR 0x0A])"

text \<open>
  \<open>re.search(r'[_\.]([lLrR])$', bone_name)\<close>: the start positions are tried from left to
  right; the result is group 1 of the first match, or \<open>None\<close>.
\<close>

fun re_search_side :: "string \<Rightarrow> char option" where
  "re_search_side [] = None"
| "re_search_side [c] = None"
| "re_search_side (c # d # rest) =
     (if is_separator c \<and> is_side_letter d \<and> at_dollar rest then Some d
      else re_search_side (d # rest))"

definition to_bone_suffix :: "string \<Rightarrow> string option" where
  "to_bone_suffix bone_name =
     (case re_search_side bone_name of
        None \<Rightarrow> None
      | Some raw_suffix \<Rightarrow>
          (if raw_suffix = CHR ''l'' \<or> raw_suffix = CHR ''L'' then Some ''L'' else Some ''R''))"

text \<open>
  The reading of the specification's sentence, for comparison: the marker is the letter
  \<open>l\<close> or \<open>r\<close> in either case at the end of the name, and the separator before it is
  optional, so that the last character alone decides.
\<close>

definition side_suffix_separator_optional :: "string \<Rightarrow> string option" where
  "side_suffix_separator_optional name =
     (if name = [] then None
      else if last name = CHR ''l'' \<or> last name = CHR ''L'' then Some ''L''
      else if last name = CHR ''r'' \<or> last name = CHR ''R'' then Some ''R''
      else None)"

text \<open>What the code's pattern asks for: a separator followed by the letter, at the end.\<close>

definition ends_with_marker :: "string \<Rightarrow> char \<Rightarrow> char \<Rightarrow> bool" where
  "ends_with_marker name lower upper =
     (2 \<le> length name \<and> is_separator (name ! (length name - 2)) \<and>
      (last name = lower \<or> last name = upper))"

subsection \<open>\<open>to_angle\<close>\<close>

record Vector =
  x :: real
  y :: real
  z :: real

text \<open>
  \<open>math.atan2(y, x)\<close> of the standard library, as the function on the reals that it
  computes in floating point: the angle of the point \<open>(x, y)\<close> in \<open>(-\<pi>, \<pi>]\<close>, and
  \<open>0\<close> at the origin.
\<close>

definition atan2 :: "real \<Rightarrow> real \<Rightarrow> real" where
  "atan2 b a =
     (if 0 < a then arctan (b / a)
      else if a < 0 then (if 0 \<le> b then arctan (b / a) + pi else arctan (b / a) - pi)
      else if 0 < b then pi / 2
      else if b < 0 then - (pi / 2)
      else 0)"

definition to_angle :: "Vector \<Rightarrow> string \<Rightarrow> py_error + real" where
  "to_angle vector plane =
     (if plane = ''XZ'' then Inr (atan2 (z vector) (x vector))
      else if plane = ''XY'' then Inr (atan2 (y vector) (x vector))
      else if plane = ''YZ'' then Inr (atan2 (z vector) (y vector))
      else Inl ValueError)"

section \<open>The host's pose data\<close>

text \<open>
  The constraint, driver and pose-bone objects belong to the host (\<open>bpy\<close>), which is not
  part of the repository. They are modelled from the specification's host interface, with
  the fields the code reads and writes. Attributes assigned with \<open>setattr\<close> are kept in
  assignment order in \<open>attrs\<close>; what the host accepts as a kind or an attribute is a
  parameter of the model (\<open>Host\<close> below). Field names that several
  objects share carry a prefix: \<open>ctype\<close> and \<open>cname\<close> are a constraint's \<open>type\<close> and
  \<open>name\<close>, \<open>pb_name\<close> is a pose bone's \<open>name\<close>, \<open>name_j\<close> is its
  \<open>mmd_bone.name_j\<close>, \<open>props\<close> are its custom properties, and the fields of the
  dataclass \<open>DriverVariable\<close> start with \<open>dv_\<close>.
\<close>

record DriverVariable =
  dv_name :: string
  dv_target :: nat
  dv_data_path :: string

text \<open>
  A variable of a host driver: \<open>variable.name\<close>, \<open>variable.targets[0].id\<close> and
  \<open>variable.targets[0].data_path\<close>.
\<close>

record HostVariable =
  var_name :: string
  var_target_id :: nat
  var_target_data_path :: string

record Driver =
  variables :: "HostVariable list"
  expression :: string

record Constraint =
  ctype :: string
  cname :: string
  attrs :: "(string \<times> pyval) list"
  drivers :: "(string \<times> Driver) list"

record PoseBone =
  pb_name :: string
  constraints :: "Constraint list"
  name_j :: string
  props :: "(string \<times> pyval) list"

text \<open>
  Modelled from the spec: the host's \<open>driver_add\<close> and \<open>driver_remove\<close> ("attach an
  expression-driver to a constraint's influence value"). \<open>driver_add(path)\<close> gives the
  driver of that property, creating an empty one when the property has none;
  \<open>driver_remove(path)\<close> detaches whatever drives the property and is not an error when
  nothing does. The code holds the driver by reference; here it is addressed by its path.
\<close>

definition driver_add :: "string \<Rightarrow> Constraint \<Rightarrow> Constraint" where
  "driver_add path constraint =
     (if path \<in> set (map fst (drivers constraint)) then constraint
      else constraint\<lparr>drivers := drivers constraint @ [(path, \<lparr>variables = [], expression = []\<rparr>)]\<rparr>)"

definition driver_remove :: "string \<Rightarrow> Constraint \<Rightarrow> Constraint" where
  "driver_remove path constraint =
     constraint\<lparr>drivers := filter (\<lambda>pd. fst pd \<noteq> path) (drivers constraint)\<rparr>"

definition modify_driver :: "string \<Rightarrow> (Driver \<Rightarrow> Driver) \<Rightarrow> Constraint \<Rightarrow> Constraint" where
  "modify_driver path f constraint =
     constraint\<lparr>drivers := AList.map_entry path f (drivers constraint)\<rparr>"

text \<open>
  \<open>driver.variables.new()\<close> followed by the three assignments of the loop body of
  \<open>add_driver\<close>.
\<close>

definition variables_new :: "DriverVariable \<Rightarrow> Driver \<Rightarrow> Driver" where
  "variables_new driver_variable driver =
     driver\<lparr>variables := variables driver @
        [\<lparr>var_name = dv_name driver_variable,
          var_target_id = dv_target driver_variable,
          var_target_data_path = dv_data_path driver_variable\<rparr>]\<rparr>"

text \<open>
  Modelled from the spec: the host evaluates a driver's expression, "a small arithmetic
  string (\<open>+name\<close>, \<open>1-name\<close>)", with every variable bound to the value of the property
  that its target and data path name. \<open>read\<close> is the host's lookup of that property.
  Only the two forms the engine writes are evaluated.
\<close>

definition eval_expression :: "(string \<Rightarrow> real option) \<Rightarrow> string \<Rightarrow> real option" where
  "eval_expression env e =
     (if startswith e ''1-'' then map_option (\<lambda>v. 1 - v) (env (drop 2 e))
      else if startswith e ''+'' then env (drop 1 e)
      else None)"

definition driver_value :: "(nat \<Rightarrow> string \<Rightarrow> real option) \<Rightarrow> Driver \<Rightarrow> real option" where
  "driver_value read driver =
     eval_expression
       (\<lambda>n. case find (\<lambda>v. var_name v = n) (variables driver) of
               None \<Rightarrow> None
             | Some v \<Rightarrow> read (var_target_id v) (var_target_data_path v))
       (expression driver)"

text \<open>The drivers attached to a property of a constraint.\<close>

definition drivers_at :: "string \<Rightarrow> Constraint \<Rightarrow> Driver list" where
  "drivers_at path constraint = map snd (filter (\<lambda>pd. fst pd = path) (drivers constraint))"

section \<open>\<open>PoseUtil\<close>\<close>

definition add_driver :: "Constraint \<Rightarrow> string \<Rightarrow> string \<Rightarrow> DriverVariable list \<Rightarrow> Constraint" where
  "add_driver constraint driver_path driver_expression driver_variables =
     (let c1 = driver_add driver_path constraint;
          c2 = fold (\<lambda>driver_variable. modify_driver driver_path (variables_new driver_variable))
                 driver_variables c1
      in modify_driver driver_path (\<lambda>driver. driver\<lparr>expression := driver_expression\<rparr>) c2)"

definition add_influence_driver :: "Constraint \<Rightarrow> nat \<Rightarrow> string \<Rightarrow> bool \<Rightarrow> Constraint" where
  "add_influence_driver constraint target data_path invert_influence =
     (let variable = \<lparr>dv_name = ''mmd_uuunyaa_influence'', dv_target = target,
                       dv_data_path = data_path\<rparr>
      in add_driver constraint ''influence''
           ((if invert_influence then ''1-'' else ''+'') @ dv_name variable) [variable])"

definition update_influence_driver :: "Constraint \<Rightarrow> nat \<Rightarrow> string \<Rightarrow> bool \<Rightarrow> Constraint" where
  "update_influence_driver constraint target data_path invert_influence =
     add_influence_driver (driver_remove ''influence'' constraint) target data_path invert_influence"

text \<open>
  Modelled from the spec: what the host decides when a constraint is created, named and
  given attributes ("invalid combinations fail at the host-runtime boundary"), taken as
  parameters since the host is not part of the repository.
  \<^item> \<open>kind_error kind\<close> is the error of \<open>constraints.new(kind)\<close>, if the host rejects the
    kind, and \<open>default_name kind\<close> is the name the host proposes for a new constraint of
    the kind.
  \<^item> \<open>name_given others name\<close> is the name a constraint bears after
    \<open>constraint.name = name\<close> on a bone whose other constraints are named \<open>others\<close>: the
    host keeps the names on a bone distinct and may alter \<open>name\<close> to do so.
  \<^item> \<open>drivers_kept bone name\<close> are the drivers that the armature object holds for the
    constraint of that name on that bone. The host keeps drivers by path, so a driver can
    outlive the constraint it was made for and be found again by a new constraint that
    bears the name.
  \<^item> \<open>attribute_error kind key v\<close> is the error of assigning \<open>v\<close> to the attribute
    \<open>key\<close> of a constraint of the kind, if the host rejects it.
\<close>

record Host =
  kind_error :: "string \<Rightarrow> py_error option"
  default_name :: "string \<Rightarrow> string"
  name_given :: "string list \<Rightarrow> string \<Rightarrow> string"
  drivers_kept :: "string \<Rightarrow> string \<Rightarrow> (string \<times> Driver) list"
  attribute_error :: "string \<Rightarrow> string \<Rightarrow> pyval \<Rightarrow> py_error option"

text \<open>
  \<open>pose_bone.constraints.new(constraint_type)\<close> appends a constraint of the kind with no
  attribute assigned, under the name the host gives it, and with the drivers the host holds
  for a constraint of that name on the bone. The reference the code holds to the new
  constraint is its position in the bone's stack.
\<close>

definition constraints_new :: "Host \<Rightarrow> PoseBone \<Rightarrow> string \<Rightarrow> py_error + PoseBone \<times> nat" where
  "constraints_new host pose_bone constraint_type =
     (case kind_error host constraint_type of
        Some e \<Rightarrow> Inl e
      | None \<Rightarrow>
          (let given = name_given host (map cname (constraints pose_bone))
                         (default_name host constraint_type)
           in Inr (pose_bone\<lparr>constraints := constraints pose_bone @
                     [\<lparr>ctype = constraint_type, cname = given, attrs = [],
                       drivers = drivers_kept host (pb_name pose_bone) given\<rparr>]\<rparr>,
                   length (constraints pose_bone))))"

definition modify_constraint :: "nat \<Rightarrow> (Constraint \<Rightarrow> Constraint) \<Rightarrow> PoseBone \<Rightarrow> PoseBone" where
  "modify_constraint ref f pose_bone =
     pose_bone\<lparr>constraints := (constraints pose_bone)[ref := f (constraints pose_bone ! ref)]\<rparr>"

text \<open>
  \<open>constraint.name = name\<close>, for the constraint at position \<open>ref\<close> of the bone: the
  constraint bears the name the host gives it among the other constraints of the bone, and
  its drivers are the ones the host holds under that name.
\<close>

definition set_name :: "Host \<Rightarrow> nat \<Rightarrow> string \<Rightarrow> PoseBone \<Rightarrow> PoseBone" where
  "set_name host ref name pose_bone =
     (let others = map cname (take ref (constraints pose_bone) @ drop (Suc ref) (constraints pose_bone));
          given = name_given host others name
      in modify_constraint ref
           (\<lambda>c. c\<lparr>cname := given, drivers := drivers_kept host (pb_name pose_bone) given\<rparr>)
           pose_bone)"

definition setattr :: "Host \<Rightarrow> string \<Rightarrow> pyval \<Rightarrow> Constraint \<Rightarrow> py_error + Constraint" where
  "setattr host key v constraint =
     (case attribute_error host (ctype constraint) key v of
        Some e \<Rightarrow> Inl e
      | None \<Rightarrow> Inr (constraint\<lparr>attrs := AList.update key v (attrs constraint)\<rparr>))"

text \<open>The loop \<open>for key, value in kwargs.items(): setattr(constraint, key, value)\<close>.\<close>

fun setattrs :: "Host \<Rightarrow> (string \<times> pyval) list \<Rightarrow> Constraint \<Rightarrow> py_error + Constraint" where
  "setattrs host [] constraint = Inr constraint"
| "setattrs host ((key, v) # kwargs) constraint =
     (case setattr host key v constraint of
        Inl e \<Rightarrow> Inl e
      | Inr c \<Rightarrow> setattrs host kwargs c)"

text \<open>
  A keyword dictionary is an association list with distinct keys, in insertion order; it
  holds the keywords of a call that are not bound to a named parameter. Python raises
  \<open>TypeError\<close> at a call that passes a keyword twice, or passes by keyword a parameter
  already bound; \<open>keyword_clash\<close> is that test. The named parameters of each function
  are arguments of its model, so a keyword of their name is a clash (for a class method,
  \<open>cls\<close> as well).
\<close>

definition keyword_clash :: "string list \<Rightarrow> (string \<times> pyval) list \<Rightarrow> bool" where
  "keyword_clash names kwargs = list_ex (\<lambda>k. k \<in> set names) (map fst kwargs)"

definition add_constraint ::
  "Host \<Rightarrow> PoseBone \<Rightarrow> string \<Rightarrow> string \<Rightarrow> (string \<times> pyval) list
     \<Rightarrow> py_error + PoseBone \<times> nat" where
  "add_constraint host pose_bone constraint_type name kwargs =
     (if keyword_clash [''pose_bone'', ''constraint_type'', ''name''] kwargs then Inl TypeError
      else
        (case constraints_new host pose_bone constraint_type of
           Inl e \<Rightarrow> Inl e
         | Inr (pb1, constraint) \<Rightarrow>
             (let pb2 = set_name host constraint name pb1
              in case setattrs host kwargs (constraints pb2 ! constraint) of
                   Inl e \<Rightarrow> Inl e
                 | Inr c \<Rightarrow>
                     Inr (pb2\<lparr>constraints := (constraints pb2)[constraint := c]\<rparr>, constraint))))"

definition list_constraints :: "PoseBone \<Rightarrow> string \<Rightarrow> Constraint list" where
  "list_constraints pose_bone constraint_type =
     filter (\<lambda>constraint. ctype constraint = constraint_type) (constraints pose_bone)"

definition add_copy_transforms_constraint ::
  "Host \<Rightarrow> PoseBone \<Rightarrow> nat \<Rightarrow> string \<Rightarrow> string \<Rightarrow> string \<Rightarrow> bool \<Rightarrow> (string \<times> pyval) list
     \<Rightarrow> py_error + PoseBone \<times> nat" where
  "add_copy_transforms_constraint host pose_bone target_object subtarget space influence_data_path
       invert_influence kwargs =
     (if keyword_clash [''cls'', ''pose_bone'', ''target_object'', ''subtarget'', ''space'',
                        ''influence_data_path'', ''invert_influence''] kwargs
      then Inl TypeError
      else if keyword_clash [''target'', ''subtarget'', ''target_space'', ''owner_space''] kwargs
      then Inl TypeError
      else
        (case add_constraint host pose_bone ''COPY_TRANSFORMS'' ''mmd_uuunyaa_copy_transforms''
                ([(''target'', PObj target_object), (''subtarget'', PStr subtarget),
                  (''target_space'', PStr space), (''owner_space'', PStr space)] @ kwargs) of
           Inl e \<Rightarrow> Inl e
         | Inr (pb, constraint) \<Rightarrow>
             Inr (modify_constraint constraint
                    (\<lambda>c. add_influence_driver c target_object influence_data_path invert_influence)
                    pb,
                  constraint)))"

definition add_copy_rotation_constraint ::
  "Host \<Rightarrow> PoseBone \<Rightarrow> nat \<Rightarrow> string \<Rightarrow> string \<Rightarrow> string \<Rightarrow> bool \<Rightarrow> (string \<times> pyval) list
     \<Rightarrow> py_error + PoseBone \<times> nat" where
  "add_copy_rotation_constraint host pose_bone target_object subtarget space influence_data_path
       invert_influence kwargs =
     (if keyword_clash [''cls'', ''pose_bone'', ''target_object'', ''subtarget'', ''space'',
                        ''influence_data_path'', ''invert_influence''] kwargs
      then Inl TypeError
      else if keyword_clash [''target'', ''subtarget'', ''target_space'', ''owner_space''] kwargs
      then Inl TypeError
      else
        (case add_constraint host pose_bone ''COPY_ROTATION'' ''mmd_uuunyaa_copy_rotation''
                ([(''target'', PObj target_object), (''subtarget'', PStr subtarget),
                  (''target_space'', PStr space), (''owner_space'', PStr space)] @ kwargs) of
           Inl e \<Rightarrow> Inl e
         | Inr (pb, constraint) \<Rightarrow>
             Inr (modify_constraint constraint
                    (\<lambda>c. add_influence_driver c target_object influence_data_path invert_influence)
                    pb,
                  constraint)))"

definition add_copy_location_constraint ::
  "Host \<Rightarrow> PoseBone \<Rightarrow> nat \<Rightarrow> string \<Rightarrow> string \<Rightarrow> string \<Rightarrow> bool \<Rightarrow> (string \<times> pyval) list
     \<Rightarrow> py_error + PoseBone \<times> nat" where
  "add_copy_location_constraint host pose_bone target_object subtarget space influence_data_path
       invert_influence kwargs =
     (if keyword_clash [''cls'', ''pose_bone'', ''target_object'', ''subtarget'', ''space'',
                        ''influence_data_path'', ''invert_influence''] kwargs
      then Inl TypeError
      else if keyword_clash [''target'', ''subtarget'', ''target_space'', ''owner_space''] kwargs
      then Inl TypeError
      else
        (case add_constraint host pose_bone ''COPY_LOCATION'' ''mmd_uuunyaa_copy_location''
                ([(''target'', PObj target_object), (''subtarget'', PStr subtarget),
                  (''target_space'', PStr space), (''owner_space'', PStr space)] @ kwargs) of
           Inl e \<Rightarrow> Inl e
         | Inr (pb, constraint) \<Rightarrow>
             Inr (modify_constraint constraint
                    (\<lambda>c. add_influence_driver c target_object influence_data_path invert_influence)
                    pb,
                  constraint)))"

definition add_copy_scale_constraint ::
  "Host \<Rightarrow> PoseBone \<Rightarrow> nat \<Rightarrow> string \<Rightarrow> string \<Rightarrow> string \<Rightarrow> bool \<Rightarrow> (string \<times> pyval) list
     \<Rightarrow> py_error + PoseBone \<times> nat" where
  "add_copy_scale_constraint host pose_bone target_object subtarget space influence_data_path
       invert_influence kwargs =
     (if keyword_clash [''cls'', ''pose_bone'', ''target_object'', ''subtarget'', ''space'',
                        ''influence_data_path'', ''invert_influence''] kwargs
      then Inl TypeError
      else if keyword_clash [''target'', ''subtarget'', ''target_space'', ''owner_space''] kwargs
      then Inl TypeError
      else
        (case add_constraint host pose_bone ''COPY_SCALE'' ''mmd_uuunyaa_copy_scale''
                ([(''target'', PObj target_object), (''subtarget'', PStr subtarget),
                  (''target_space'', PStr space), (''owner_space'', PStr space)] @ kwargs) of
           Inl e \<Rightarrow> Inl e
         | Inr (pb, constraint) \<Rightarrow>
             Inr (modify_constraint constraint
                    (\<lambda>c. add_influence_driver c target_object influence_data_path invert_influence)
                    pb,
                  constraint)))"

definition add_ik_constraint ::
  "Host \<Rightarrow> PoseBone \<Rightarrow> nat \<Rightarrow> string \<Rightarrow> string \<Rightarrow> int \<Rightarrow> int \<Rightarrow> bool \<Rightarrow> (string \<times> pyval) list
     \<Rightarrow> py_error + PoseBone \<times> nat" where
  "add_ik_constraint host pose_bone target_object subtarget influence_data_path chain_count
       iterations invert_influence kwargs =
     (if keyword_clash [''cls'', ''pose_bone'', ''target_object'', ''subtarget'',
                        ''influence_data_path'', ''chain_count'', ''iterations'',
                        ''invert_influence''] kwargs
      then Inl TypeError
      else if keyword_clash [''target'', ''subtarget'', ''chain_count'', ''iterations''] kwargs
      then Inl TypeError
      else
        (case add_constraint host pose_bone ''IK'' ''mmd_uuunyaa_ik_mmd''
                ([(''target'', PObj target_object), (''subtarget'', PStr subtarget),
                  (''chain_count'', PInt chain_count), (''iterations'', PInt iterations)] @ kwargs) of
           Inl e \<Rightarrow> Inl e
         | Inr (pb, constraint) \<Rightarrow>
             Inr (modify_constraint constraint
                    (\<lambda>c. add_influence_driver c target_object influence_data_path invert_influence)
                    pb,
                  constraint)))"

text \<open>
  Modelled from the spec: the host's collection of a bone's constraints ("remove
  constraint by identity, iterate constraints on a bone") is a linked stack whose iterator
  has already moved on to the following element when the loop body receives the current
  one, so that unlinking the current element leaves the traversal where it is. The loop
  state is the part of the stack already visited and kept, and the part still to visit;
  the stack itself is the first followed by the second.
\<close>

fun remove_constraints_loop :: "Constraint list \<Rightarrow> Constraint list \<Rightarrow> Constraint list" where
  "remove_constraints_loop visited [] = visited"
| "remove_constraints_loop visited (constraint # rest) =
     (if \<not> startswith (cname constraint) ''mmd_uuunyaa_''
      then remove_constraints_loop (visited @ [constraint]) rest
      else remove_constraints_loop visited rest)"

definition remove_constraints :: "PoseBone list \<Rightarrow> PoseBone list" where
  "remove_constraints pose_bones =
     map (\<lambda>pose_bone. pose_bone\<lparr>constraints := remove_constraints_loop [] (constraints pose_bone)\<rparr>)
       pose_bones"

text \<open>
  For stating what a helper leaves behind: a bone with a constraint appended to its stack,
  paired with the reference to that constraint; the driver that \<open>add_influence_driver\<close>
  makes for a property without driver; the names a keyword dictionary must not repeat
  (the helper's own parameters, the keywords it passes itself, and the parameters of
  \<open>add_constraint\<close>); the attributes a helper passes itself; and the host accepting a kind
  with a list of attributes.
\<close>

definition appended :: "PoseBone \<Rightarrow> Constraint \<Rightarrow> PoseBone \<times> nat" where
  "appended pose_bone constraint =
     (pose_bone\<lparr>constraints := constraints pose_bone @ [constraint]\<rparr>,
      length (constraints pose_bone))"

definition influence_driver :: "nat \<Rightarrow> string \<Rightarrow> bool \<Rightarrow> Driver" where
  "influence_driver target data_path invert_influence =
     \<lparr>variables = [\<lparr>var_name = ''mmd_uuunyaa_influence'', var_target_id = target,
                     var_target_data_path = data_path\<rparr>],
      expression = (if invert_influence then ''1-'' else ''+'') @ ''mmd_uuunyaa_influence''\<rparr>"

definition copy_keywords :: "string list" where
  "copy_keywords =
     [''cls'', ''pose_bone'', ''target_object'', ''subtarget'', ''space'',
      ''influence_data_path'', ''invert_influence'',
      ''target'', ''target_space'', ''owner_space'', ''constraint_type'', ''name'']"

definition ik_keywords :: "string list" where
  "ik_keywords =
     [''cls'', ''pose_bone'', ''target_object'', ''subtarget'', ''influence_data_path'',
      ''chain_count'', ''iterations'', ''invert_influence'',
      ''target'', ''constraint_type'', ''name'']"

definition copy_attributes :: "nat \<Rightarrow> string \<Rightarrow> string \<Rightarrow> (string \<times> pyval) list" where
  "copy_attributes target_object subtarget space =
     [(''target'', PObj target_object), (''subtarget'', PStr subtarget),
      (''target_space'', PStr space), (''owner_space'', PStr space)]"

definition ik_attributes :: "nat \<Rightarrow> string \<Rightarrow> int \<Rightarrow> int \<Rightarrow> (string \<times> pyval) list" where
  "ik_attributes target_object subtarget chain_count iterations =
     [(''target'', PObj target_object), (''subtarget'', PStr subtarget),
      (''chain_count'', PInt chain_count), (''iterations'', PInt iterations)]"

definition host_accepts :: "Host \<Rightarrow> string \<Rightarrow> (string \<times> pyval) list \<Rightarrow> bool" where
  "host_accepts host kind attributes =
     (kind_error host kind = None
      \<and> list_all (\<lambda>kv. attribute_error host kind (fst kv) (snd kv) = None) attributes)"

text \<open>
  What a helper has authored, as a test on its result. The call succeeded; the bone is the
  given bone with one constraint appended, and the reference returned is to that
  constraint; the constraint has the kind, the name the host gave it for the helper's
  name, and exactly the attributes listed, in order; a driver on its \<open>influence\<close> has the
  expression for the inversion flag and a variable bound to the target and data path;
  and when the host held no driver for that \<open>influence\<close>, the drivers of the constraint
  are those the host held and the one influence driver with its single variable.
\<close>

definition authored ::
  "Host \<Rightarrow> PoseBone \<Rightarrow> string \<Rightarrow> string \<Rightarrow> (string \<times> pyval) list \<Rightarrow> nat \<Rightarrow> string \<Rightarrow> bool
     \<Rightarrow> py_error + PoseBone \<times> nat \<Rightarrow> bool" where
  "authored host pose_bone kind name attributes target data_path invert_influence result =
     (case result of
        Inl e \<Rightarrow> False
      | Inr (pb, constraint) \<Rightarrow>
          (let c = constraints pb ! constraint;
               given = name_given host (map cname (constraints pose_bone)) name;
               kept = drivers_kept host (pb_name pose_bone) given
           in (pb, constraint) = appended pose_bone c
              \<and> ctype c = kind \<and> cname c = given \<and> attrs c = attributes
              \<and> list_ex (\<lambda>d. expression d
                                 = expression (influence_driver target data_path invert_influence)
                               \<and> list_ex (\<lambda>v. var_target_id v = target
                                               \<and> var_target_data_path v = data_path)
                                    (variables d))
                   (drivers_at ''influence'' c)
              \<and> (''influence'' \<notin> set (map fst kept) \<longrightarrow>
                   drivers c = kept @ [(''influence'',
                                        influence_driver target data_path invert_influence)])))"

text \<open>
  A host for the examples: it knows the five kinds the helpers use, adds \<open>.001\<close> to a
  name that is taken, holds no driver, and knows no attribute \<open>mix_mode\<close> of an \<open>IK\<close>
  constraint.
\<close>

definition example_host :: Host where
  "example_host =
     \<lparr>kind_error = (\<lambda>kind. if kind \<in> set [''COPY_TRANSFORMS'', ''COPY_ROTATION'',
                                             ''COPY_LOCATION'', ''COPY_SCALE'', ''IK'']
                             then None else Some TypeError),
      default_name = (\<lambda>kind. ''Constraint''),
      name_given = (\<lambda>others name. if name \<in> set others then name @ ''.001'' else name),
      drivers_kept = (\<lambda>bone name. []),
      attribute_error = (\<lambda>kind key v. if kind = ''IK'' \<and> key = ''mix_mode''
                                       then Some AttributeError else None)\<rparr>"

section \<open>The bone catalog\<close>

datatype MMDBoneType =
    STANDARD
  | PARENT
  | UPPER_ARM_TWIST
  | WRIST_TWIST
  | UPPER_BODY_1
  | UPPER_BODY_2
  | GROOVE
  | TOLSO
  | LEG_IK_PARENT
  | CONTROL
  | TOE_EX
  | HAND_ACCESSORIES
  | SHOULDER_CANCEL
  | THUMB_0
  | OTHERS

record MMDBoneInfo =
  bone_type :: MMDBoneType
  mmd_bone_name :: string

text \<open>
  The members of the enumeration \<open>MMDBoneInfo\<close> in the order of their declaration, each
  with its two fields. The names are Japanese; each is written as the bytes of its UTF-8
  encoding. No two members have the same pair of fields, so the enumeration has no alias
  and its members are exactly the declared ones.
\<close>

definition MMDBoneInfo_members :: "MMDBoneInfo list" where
  "MMDBoneInfo_members = [
    \<lparr>bone_type = PARENT, mmd_bone_name = [CHR 0xE5, CHR 0x85, CHR 0xA8, CHR 0xE3, CHR 0x81, CHR 0xA6, CHR 0xE3, CHR 0x81, CHR 0xAE, CHR 0xE8, CHR 0xA6, CHR 0xAA]\<rparr>,
    \<lparr>bone_type = STANDARD, mmd_bone_name = [CHR 0xE3, CHR 0x82, CHR 0xBB, CHR 0xE3, CHR 0x83, CHR 0xB3, CHR 0xE3, CHR 0x82, CHR 0xBF, CHR 0xE3, CHR 0x83, CHR 0xBC]\<rparr>,
    \<lparr>bone_type = GROOVE, mmd_bone_name = [CHR 0xE3, CHR 0x82, CHR 0xB0, CHR 0xE3, CHR 0x83, CHR 0xAB, CHR 0xE3, CHR 0x83, CHR 0xBC, CHR 0xE3, CHR 0x83, CHR 0x96]\<rparr>,
    \<lparr>bone_type = TOLSO, mmd_bone_name = [CHR 0xE8, CHR 0x85, CHR 0xB0]\<rparr>,
    \<lparr>bone_type = STANDARD, mmd_bone_name = [CHR 0xE4, CHR 0xB8, CHR 0x8A, CHR 0xE5, CHR 0x8D, CHR 0x8A, CHR 0xE8, CHR 0xBA, CHR 0xAB]\<rparr>,
    \<lparr>bone_type = UPPER_BODY_1, mmd_bone_name = [CHR 0xE4, CHR 0xB8, CHR 0x8A, CHR 0xE5, CHR 0x8D, CHR 0x8A, CHR 0xE8, CHR 0xBA, CHR 0xAB, CHR 0x31]\<rparr>,
    \<lparr>bone_type = UPPER_BODY_2, mmd_bone_name = [CHR 0xE4, CHR 0xB8, CHR 0x8A, CHR 0xE5, CHR 0x8D, CHR 0x8A, CHR 0xE8, CHR 0xBA, CHR 0xAB, CHR 0x32]\<rparr>,
    \<lparr>bone_type = STANDARD, mmd_bone_name = [CHR 0xE9, CHR 0xA6, CHR 0x96]\<rparr>,
    \<lparr>bone_type = STANDARD, mmd_bone_name = [CHR 0xE9, CHR 0xA0, CHR 0xAD]\<rparr>,
    \<lparr>bone_type = STANDARD, mmd_bone_name = [CHR 0xE4, CHR 0xB8, CHR 0xA1, CHR 0xE7, CHR 0x9B, CHR 0xAE]\<rparr>,
    \<lparr>bone_type = STANDARD, mmd_bone_name = [CHR 0xE5, CHR 0xB7, CHR 0xA6, CHR 0xE7, CHR 0x9B, CHR 0xAE]\<rparr>,
    \<lparr>bone_type = STANDARD, mmd_bone_name = [CHR 0xE5, CHR 0x8F, CHR 0xB3, CHR 0xE7, CHR 0x9B, CHR 0xAE]\<rparr>,
    \<lparr>bone_type = STANDARD, mmd_bone_name = [CHR 0xE5, CHR 0xB7, CHR 0xA6, CHR 0xE8, CHR 0x82, CHR 0xA9]\<rparr>,
    \<lparr>bone_type = STANDARD, mmd_bone_name = [CHR 0xE5, CHR 0xB7, CHR 0xA6, CHR 0xE8, CHR 0x85, CHR 0x95]\<rparr>,
    \<lparr>bone_type = UPPER_ARM_TWIST, mmd_bone_name = [CHR 0xE5, CHR 0xB7, CHR 0xA6, CHR 0xE8, CHR 0x85, CHR 0x95, CHR 0xE6, CHR 0x8D, CHR 0xA9]\<rparr>,
    \<lparr>bone_type = STANDARD, mmd_bone_name = [CHR 0xE5, CHR 0xB7, CHR 0xA6, CHR 0xE3, CHR 0x81, CHR 0xB2, CHR 0xE3, CHR 0x81, CHR 0x98]\<rparr>,
    \<lparr>bone_type = WRIST_TWIST, mmd_bone_name = [CHR 0xE5, CHR 0xB7, CHR 0xA6, CHR 0xE6, CHR 0x89, CHR 0x8B, CHR 0xE6, CHR 0x8D, CHR 0xA9]\<rparr>,
    \<lparr>bone_type = STANDARD, mmd_bone_name = [CHR 0xE5, CHR 0xB7, CHR 0xA6, CHR 0xE6, CHR 0x89, CHR 0x8B, CHR 0xE9, CHR 0xA6, CHR 0x96]\<rparr>,
    \<lparr>bone_type = THUMB_0, mmd_bone_name = [CHR 0xE5, CHR 0xB7, CHR 0xA6, CHR 0xE8, CHR 0xA6, CHR 0xAA, CHR 0xE6, CHR 0x8C, CHR 0x87, CHR 0xEF, CHR 0xBC, CHR 0x90]\<rparr>,
    \<lparr>bone_type = STANDARD, mmd_bone_name = [CHR 0xE5, CHR 0xB7, CHR 0xA6, CHR 0xE8, CHR 0xA6, CHR 0xAA, CHR 0xE6, CHR 0x8C, CHR 0x87, CHR 0xEF, CHR 0xBC, CHR 0x91]\<rparr>,
    \<lparr>bone_type = STANDARD, mmd_bone_name = [CHR 0xE5, CHR 0xB7, CHR 0xA6, CHR 0xE8, CHR 0xA6, CHR 0xAA, CHR 0xE6, CHR 0x8C, CHR 0x87, CHR 0xEF, CHR 0xBC, CHR 0x92]\<rparr>,
    \<lparr>bone_type = OTHERS, mmd_bone_name = [CHR 0xE5, CHR 0xB7, CHR 0xA6, CHR 0xE4, CHR 0xBA, CHR 0xBA, CHR 0xE6, CHR 0x8C, CHR 0x87, CHR 0xEF, CHR 0xBC, CHR 0x90]\<rparr>,
    \<lparr>bone_type = STANDARD, mmd_bone_name = [CHR 0xE5, CHR 0xB7, CHR 0xA6, CHR 0xE4, CHR 0xBA, CHR 0xBA, CHR 0xE6, CHR 0x8C, CHR 0x87, CHR 0xEF, CHR 0xBC, CHR 0x91]\<rparr>,
    \<lparr>bone_type = STANDARD, mmd_bone_name = [CHR 0xE5, CHR 0xB7, CHR 0xA6, CHR 0xE4, CHR 0xBA, CHR 0xBA, CHR 0xE6, CHR 0x8C, CHR 0x87, CHR 0xEF, CHR 0xBC, CHR 0x92]\<rparr>,
    \<lparr>bone_type = STANDARD, mmd_bone_name = [CHR 0xE5, CHR 0xB7, CHR 0xA6, CHR 0xE4, CHR 0xBA, CHR 0xBA, CHR 0xE6, CHR 0x8C, CHR 0x87, CHR 0xEF, CHR 0xBC, CHR 0x93]\<rparr>,
    \<lparr>bone_type = OTHERS, mmd_bone_name = [CHR 0xE5, CHR 0xB7, CHR 0xA6, CHR 0xE4, CHR 0xB8, CHR 0xAD, CHR 0xE6, CHR 0x8C, CHR 0x87, CHR 0xEF, CHR 0xBC, CHR 0x90]\<rparr>,
    \<lparr>bone_type = STANDARD, mmd_bone_name = [CHR 0xE5, CHR 0xB7, CHR 0xA6, CHR 0xE4, CHR 0xB8, CHR 0xAD, CHR 0xE6, CHR 0x8C, CHR 0x87, CHR 0xEF, CHR 0xBC, CHR 0x91]\<rparr>,
    \<lparr>bone_type = STANDARD, mmd_bone_name = [CHR 0xE5, CHR 0xB7, CHR 0xA6, CHR 0xE4, CHR 0xB8, CHR 0xAD, CHR 0xE6, CHR 0x8C, CHR 0x87, CHR 0xEF, CHR 0xBC, CHR 0x92]\<rparr>,
    \<lparr>bone_type = STANDARD, mmd_bone_name = [CHR 0xE5, CHR 0xB7, CHR 0xA6, CHR 0xE4, CHR 0xB8, CHR 0xAD, CHR 0xE6, CHR 0x8C, CHR 0x87, CHR 0xEF, CHR 0xBC, CHR 0x93]\<rparr>,
    \<lparr>bone_type = OTHERS, mmd_bone_name = [CHR 0xE5, CHR 0xB7, CHR 0xA6, CHR 0xE8, CHR 0x96, CHR 0xAC, CHR 0xE6, CHR 0x8C, CHR 0x87, CHR 0xEF, CHR 0xBC, CHR 0x90]\<rparr>,
    \<lparr>bone_type = STANDARD, mmd_bone_name = [CHR 0xE5, CHR 0xB7, CHR 0xA6, CHR 0xE8, CHR 0x96, CHR 0xAC, CHR 0xE6, CHR 0x8C, CHR 0x87, CHR 0xEF, CHR 0xBC, CHR 0x91]\<rparr>,
    \<lparr>bone_type = STANDARD, mmd_bone_name = [CHR 0xE5, CHR 0xB7, CHR 0xA6, CHR 0xE8, CHR 0x96, CHR 0xAC, CHR 0xE6, CHR 0x8C, CHR 0x87, CHR 0xEF, CHR 0xBC, CHR 0x92]\<rparr>,
    \<lparr>bone_type = STANDARD, mmd_bone_name = [CHR 0xE5, CHR 0xB7, CHR 0xA6, CHR 0xE8, CHR 0x96, CHR 0xAC, CHR 0xE6, CHR 0x8C, CHR 0x87, CHR 0xEF, CHR 0xBC, CHR 0x93]\<rparr>,
    \<lparr>bone_type = OTHERS, mmd_bone_name = [CHR 0xE5, CHR 0xB7, CHR 0xA6, CHR 0xE5, CHR 0xB0, CHR 0x8F, CHR 0xE6, CHR 0x8C, CHR 0x87, CHR 0xEF, CHR 0xBC, CHR 0x90]\<rparr>,
    \<lparr>bone_type = STANDARD, mmd_bone_name = [CHR 0xE5, CHR 0xB7, CHR 0xA6, CHR 0xE5, CHR 0xB0, CHR 0x8F, CHR 0xE6, CHR 0x8C, CHR 0x87, CHR 0xEF, CHR 0xBC, CHR 0x91]\<rparr>,
    \<lparr>bone_type = STANDARD, mmd_bone_name = [CHR 0xE5, CHR 0xB7, CHR 0xA6, CHR 0xE5, CHR 0xB0, CHR 0x8F, CHR 0xE6, CHR 0x8C, CHR 0x87, CHR 0xEF, CHR 0xBC, CHR 0x92]\<rparr>,
    \<lparr>bone_type = STANDARD, mmd_bone_name = [CHR 0xE5, CHR 0xB7, CHR 0xA6, CHR 0xE5, CHR 0xB0, CHR 0x8F, CHR 0xE6, CHR 0x8C, CHR 0x87, CHR 0xEF, CHR 0xBC, CHR 0x93]\<rparr>,
    \<lparr>bone_type = STANDARD, mmd_bone_name = [CHR 0xE5, CHR 0x8F, CHR 0xB3, CHR 0xE8, CHR 0x82, CHR 0xA9]\<rparr>,
    \<lparr>bone_type = STANDARD, mmd_bone_name = [CHR 0xE5, CHR 0x8F, CHR 0xB3, CHR 0xE8, CHR 0x85, CHR 0x95]\<rparr>,
    \<lparr>bone_type = UPPER_ARM_TWIST, mmd_bone_name = [CHR 0xE5, CHR 0x8F, CHR 0xB3, CHR 0xE8, CHR 0x85, CHR 0x95, CHR 0xE6, CHR 0x8D, CHR 0xA9]\<rparr>,
    \<lparr>bone_type = STANDARD, mmd_bone_name = [CHR 0xE5, CHR 0x8F, CHR 0xB3, CHR 0xE3, CHR 0x81, CHR 0xB2, CHR 0xE3, CHR 0x81, CHR 0x98]\<rparr>,
    \<lparr>bone_type = WRIST_TWIST, mmd_bone_name = [CHR 0xE5, CHR 0x8F, CHR 0xB3, CHR 0xE6, CHR 0x89, CHR 0x8B, CHR 0xE6, CHR 0x8D, CHR 0xA9]\<rparr>,
    \<lparr>bone_type = STANDARD, mmd_bone_name = [CHR 0xE5, CHR 0x8F, CHR 0xB3, CHR 0xE6, CHR 0x89, CHR 0x8B, CHR 0xE9, CHR 0xA6, CHR 0x96]\<rparr>,
    \<lparr>bone_type = THUMB_0, mmd_bone_name = [CHR 0xE5, CHR 0x8F, CHR 0xB3, CHR 0xE8, CHR 0xA6, CHR 0xAA, CHR 0xE6, CHR 0x8C, CHR 0x87, CHR 0xEF, CHR 0xBC, CHR 0x90]\<rparr>,
    \<lparr>bone_type = STANDARD, mmd_bone_name = [CHR 0xE5, CHR 0x8F, CHR 0xB3, CHR 0xE8, CHR 0xA6, CHR 0xAA, CHR 0xE6, CHR 0x8C, CHR 0x87, CHR 0xEF, CHR 0xBC, CHR 0x91]\<rparr>,
    \<lparr>bone_type = STANDARD, mmd_bone_name = [CHR 0xE5, CHR 0x8F, CHR 0xB3, CHR 0xE8, CHR 0xA6, CHR 0xAA, CHR 0xE6, CHR 0x8C, CHR 0x87, CHR 0xEF, CHR 0xBC, CHR 0x92]\<rparr>,
    \<lparr>bone_type = OTHERS, mmd_bone_name = [CHR 0xE5, CHR 0x8F, CHR 0xB3, CHR 0xE4, CHR 0xBA, CHR 0xBA, CHR 0xE6, CHR 0x8C, CHR 0x87, CHR 0xEF, CHR 0xBC, CHR 0x90]\<rparr>,
    \<lparr>bone_type = STANDARD, mmd_bone_name = [CHR 0xE5, CHR 0x8F, CHR 0xB3, CHR 0xE4, CHR 0xBA, CHR 0xBA, CHR 0xE6, CHR 0x8C, CHR 0x87, CHR 0xEF, CHR 0xBC, CHR 0x91]\<rparr>,
    \<lparr>bone_type = STANDARD, mmd_bone_name = [CHR 0xE5, CHR 0x8F, CHR 0xB3, CHR 0xE4, CHR 0xBA, CHR 0xBA, CHR 0xE6, CHR 0x8C, CHR 0x87, CHR 0xEF, CHR 0xBC, CHR 0x92]\<rparr>,
    \<lparr>bone_type = STANDARD, mmd_bone_name = [CHR 0xE5, CHR 0x8F, CHR 0xB3, CHR 0xE4, CHR 0xBA, CHR 0xBA, CHR 0xE6, CHR 0x8C, CHR 0x87, CHR 0xEF, CHR 0xBC, CHR 0x93]\<rparr>,
    \<lparr>bone_type = OTHERS, mmd_bone_name = [CHR 0xE5, CHR 0x8F, CHR 0xB3, CHR 0xE4, CHR 0xB8, CHR 0xAD, CHR 0xE6, CHR 0x8C, CHR 0x87, CHR 0xEF, CHR 0xBC, CHR 0x90]\<rparr>,
    \<lparr>bone_type = STANDARD, mmd_bone_name = [CHR 0xE5, CHR 0x8F, CHR 0xB3, CHR 0xE4, CHR 0xB8, CHR 0xAD, CHR 0xE6, CHR 0x8C, CHR 0x87, CHR 0xEF, CHR 0xBC, CHR 0x91]\<rparr>,
    \<lparr>bone_type = STANDARD, mmd_bone_name = [CHR 0xE5, CHR 0x8F, CHR 0xB3, CHR 0xE4, CHR 0xB8, CHR 0xAD, CHR 0xE6, CHR 0x8C, CHR 0x87, CHR 0xEF, CHR 0xBC, CHR 0x92]\<rparr>,
    \<lparr>bone_type = STANDARD, mmd_bone_name = [CHR 0xE5, CHR 0x8F, CHR 0xB3, CHR 0xE4, CHR 0xB8, CHR 0xAD, CHR 0xE6, CHR 0x8C, CHR 0x87, CHR 0xEF, CHR 0xBC, CHR 0x93]\<rparr>,
    \<lparr>bone_type = OTHERS, mmd_bone_name = [CHR 0xE5, CHR 0x8F, CHR 0xB3, CHR 0xE8, CHR 0x96, CHR 0xAC, CHR 0xE6, CHR 0x8C, CHR 0x87, CHR 0xEF, CHR 0xBC, CHR 0x90]\<rparr>,
    \<lparr>bone_type = STANDARD, mmd_bone_name = [CHR 0xE5, CHR 0x8F, CHR 0xB3, CHR 0xE8, CHR 0x96, CHR 0xAC, CHR 0xE6, CHR 0x8C, CHR 0x87, CHR 0xEF, CHR 0xBC, CHR 0x91]\<rparr>,
    \<lparr>bone_type = STANDARD, mmd_bone_name = [CHR 0xE5, CHR 0x8F, CHR 0xB3, CHR 0xE8, CHR 0x96, CHR 0xAC, CHR 0xE6, CHR 0x8C, CHR 0x87, CHR 0xEF, CHR 0xBC, CHR 0x92]\<rparr>,
    \<lparr>bone_type = STANDARD, mmd_bone_name = [CHR 0xE5, CHR 0x8F, CHR 0xB3, CHR 0xE8, CHR 0x96, CHR 0xAC, CHR 0xE6, CHR 0x8C, CHR 0x87, CHR 0xEF, CHR 0xBC, CHR 0x93]\<rparr>,
    \<lparr>bone_type = OTHERS, mmd_bone_name = [CHR 0xE5, CHR 0x8F, CHR 0xB3, CHR 0xE5, CHR 0xB0, CHR 0x8F, CHR 0xE6, CHR 0x8C, CHR 0x87, CHR 0xEF, CHR 0xBC, CHR 0x90]\<rparr>,
    \<lparr>bone_type = STANDARD, mmd_bone_name = [CHR 0xE5, CHR 0x8F, CHR 0xB3, CHR 0xE5, CHR 0xB0, CHR 0x8F, CHR 0xE6, CHR 0x8C, CHR 0x87, CHR 0xEF, CHR 0xBC, CHR 0x91]\<rparr>,
    \<lparr>bone_type = STANDARD, mmd_bone_name = [CHR 0xE5, CHR 0x8F, CHR 0xB3, CHR 0xE5, CHR 0xB0, CHR 0x8F, CHR 0xE6, CHR 0x8C, CHR 0x87, CHR 0xEF, CHR 0xBC, CHR 0x92]\<rparr>,
    \<lparr>bone_type = STANDARD, mmd_bone_name = [CHR 0xE5, CHR 0x8F, CHR 0xB3, CHR 0xE5, CHR 0xB0, CHR 0x8F, CHR 0xE6, CHR 0x8C, CHR 0x87, CHR 0xEF, CHR 0xBC, CHR 0x93]\<rparr>,
    \<lparr>bone_type = STANDARD, mmd_bone_name = [CHR 0xE4, CHR 0xB8, CHR 0x8B, CHR 0xE5, CHR 0x8D, CHR 0x8A, CHR 0xE8, CHR 0xBA, CHR 0xAB]\<rparr>,
    \<lparr>bone_type = STANDARD, mmd_bone_name = [CHR 0xE5, CHR 0xB7, CHR 0xA6, CHR 0xE8, CHR 0xB6, CHR 0xB3]\<rparr>,
    \<lparr>bone_type = STANDARD, mmd_bone_name = [CHR 0xE5, CHR 0xB7, CHR 0xA6, CHR 0xE3, CHR 0x81, CHR 0xB2, CHR 0xE3, CHR 0x81, CHR 0x96]\<rparr>,
    \<lparr>bone_type = STANDARD, mmd_bone_name = [CHR 0xE5, CHR 0xB7, CHR 0xA6, CHR 0xE8, CHR 0xB6, CHR 0xB3, CHR 0xE9, CHR 0xA6, CHR 0x96]\<rparr>,
    \<lparr>bone_type = STANDARD, mmd_bone_name = [CHR 0xE5, CHR 0xB7, CHR 0xA6, CHR 0xE8, CHR 0xB6, CHR 0xB3, CHR 0xEF, CHR 0xBC, CHR 0xA9, CHR 0xEF, CHR 0xBC, CHR 0xAB]\<rparr>,
    \<lparr>bone_type = TOE_EX, mmd_bone_name = [CHR 0xE5, CHR 0xB7, CHR 0xA6, CHR 0xE8, CHR 0xB6, CHR 0xB3, CHR 0xE5, CHR 0x85, CHR 0x88, CHR 0x45, CHR 0x58]\<rparr>,
    \<lparr>bone_type = TOE_EX, mmd_bone_name = [CHR 0xE5, CHR 0xB7, CHR 0xA6, CHR 0xE8, CHR 0xB6, CHR 0xB3, CHR 0x44]\<rparr>,
    \<lparr>bone_type = TOE_EX, mmd_bone_name = [CHR 0xE5, CHR 0xB7, CHR 0xA6, CHR 0xE3, CHR 0x81, CHR 0xB2, CHR 0xE3, CHR 0x81, CHR 0x96, CHR 0x44]\<rparr>,
    \<lparr>bone_type = TOE_EX, mmd_bone_name = [CHR 0xE5, CHR 0xB7, CHR 0xA6, CHR 0xE8, CHR 0xB6, CHR 0xB3, CHR 0xE9, CHR 0xA6, CHR 0x96, CHR 0x44]\<rparr>,
    \<lparr>bone_type = STANDARD, mmd_bone_name = [CHR 0xE5, CHR 0x8F, CHR 0xB3, CHR 0xE8, CHR 0xB6, CHR 0xB3]\<rparr>,
    \<lparr>bone_type = STANDARD, mmd_bone_name = [CHR 0xE5, CHR 0x8F, CHR 0xB3, CHR 0xE3, CHR 0x81, CHR 0xB2, CHR 0xE3, CHR 0x81, CHR 0x96]\<rparr>,
    \<lparr>bone_type = STANDARD, mmd_bone_name = [CHR 0xE5, CHR 0x8F, CHR 0xB3, CHR 0xE8, CHR 0xB6, CHR 0xB3, CHR 0xE9, CHR 0xA6, CHR 0x96]\<rparr>,
    \<lparr>bone_type = STANDARD, mmd_bone_name = [CHR 0xE5, CHR 0x8F, CHR 0xB3, CHR 0xE8, CHR 0xB6, CHR 0xB3, CHR 0xEF, CHR 0xBC, CHR 0xA9, CHR 0xEF, CHR 0xBC, CHR 0xAB]\<rparr>,
    \<lparr>bone_type = TOE_EX, mmd_bone_name = [CHR 0xE5, CHR 0x8F, CHR 0xB3, CHR 0xE8, CHR 0xB6, CHR 0xB3, CHR 0xE5, CHR 0x85, CHR 0x88, CHR 0x45, CHR 0x58]\<rparr>,
    \<lparr>bone_type = TOE_EX, mmd_bone_name = [CHR 0xE5, CHR 0x8F, CHR 0xB3, CHR 0xE8, CHR 0xB6, CHR 0xB3, CHR 0x44]\<rparr>,
    \<lparr>bone_type = TOE_EX, mmd_bone_name = [CHR 0xE5, CHR 0x8F, CHR 0xB3, CHR 0xE3, CHR 0x81, CHR 0xB2, CHR 0xE3, CHR 0x81, CHR 0x96, CHR 0x44]\<rparr>,
    \<lparr>bone_type = TOE_EX, mmd_bone_name = [CHR 0xE5, CHR 0x8F, CHR 0xB3, CHR 0xE8, CHR 0xB6, CHR 0xB3, CHR 0xE9, CHR 0xA6, CHR 0x96, CHR 0x44]\<rparr>,
    \<lparr>bone_type = STANDARD, mmd_bone_name = [CHR 0xE5, CHR 0xB7, CHR 0xA6, CHR 0xE3, CHR 0x81, CHR 0xA4, CHR 0xE3, CHR 0x81, CHR 0xBE, CHR 0xE5, CHR 0x85, CHR 0x88, CHR 0xEF, CHR 0xBC, CHR 0xA9, CHR 0xEF, CHR 0xBC, CHR 0xAB]\<rparr>,
    \<lparr>bone_type = STANDARD, mmd_bone_name = [CHR 0xE5, CHR 0x8F, CHR 0xB3, CHR 0xE3, CHR 0x81, CHR 0xA4, CHR 0xE3, CHR 0x81, CHR 0xBE, CHR 0xE5, CHR 0x85, CHR 0x88, CHR 0xEF, CHR 0xBC, CHR 0xA9, CHR 0xEF, CHR 0xBC, CHR 0xAB]\<rparr>,
    \<lparr>bone_type = STANDARD, mmd_bone_name = [CHR 0xE5, CHR 0xB7, CHR 0xA6, CHR 0xE3, CHR 0x81, CHR 0xA4, CHR 0xE3, CHR 0x81, CHR 0xBE, CHR 0xE5, CHR 0x85, CHR 0x88]\<rparr>,
    \<lparr>bone_type = STANDARD, mmd_bone_name = [CHR 0xE5, CHR 0x8F, CHR 0xB3, CHR 0xE3, CHR 0x81, CHR 0xA4, CHR 0xE3, CHR 0x81, CHR 0xBE, CHR 0xE5, CHR 0x85, CHR 0x88]\<rparr>,
    \<lparr>bone_type = SHOULDER_CANCEL, mmd_bone_name = [CHR 0xE5, CHR 0xB7, CHR 0xA6, CHR 0xE8, CHR 0x82, CHR 0xA9, CHR 0x43]\<rparr>,
    \<lparr>bone_type = SHOULDER_CANCEL, mmd_bone_name = [CHR 0xE5, CHR 0xB7, CHR 0xA6, CHR 0xE8, CHR 0x82, CHR 0xA9, CHR 0x50]\<rparr>,
    \<lparr>bone_type = SHOULDER_CANCEL, mmd_bone_name = [CHR 0xE5, CHR 0x8F, CHR 0xB3, CHR 0xE8, CHR 0x82, CHR 0xA9, CHR 0x43]\<rparr>,
    \<lparr>bone_type = SHOULDER_CANCEL, mmd_bone_name = [CHR 0xE5, CHR 0x8F, CHR 0xB3, CHR 0xE8, CHR 0x82, CHR 0xA9, CHR 0x50]\<rparr>,
    \<lparr>bone_type = HAND_ACCESSORIES, mmd_bone_name = [CHR 0xE5, CHR 0xB7, CHR 0xA6, CHR 0xE3, CHR 0x83, CHR 0x80, CHR 0xE3, CHR 0x83, CHR 0x9F, CHR 0xE3, CHR 0x83, CHR 0xBC]\<rparr>,
    \<lparr>bone_type = HAND_ACCESSORIES, mmd_bone_name = [CHR 0xE5, CHR 0x8F, CHR 0xB3, CHR 0xE3, CHR 0x83, CHR 0x80, CHR 0xE3, CHR 0x83, CHR 0x9F, CHR 0xE3, CHR 0x83, CHR 0xBC]\<rparr>,
    \<lparr>bone_type = LEG_IK_PARENT, mmd_bone_name = [CHR 0xE5, CHR 0xB7, CHR 0xA6, CHR 0xE8, CHR 0xB6, CHR 0xB3, CHR 0x49, CHR 0x4B, CHR 0xE8, CHR 0xA6, CHR 0xAA]\<rparr>,
    \<lparr>bone_type = LEG_IK_PARENT, mmd_bone_name = [CHR 0xE5, CHR 0x8F, CHR 0xB3, CHR 0xE8, CHR 0xB6, CHR 0xB3, CHR 0x49, CHR 0x4B, CHR 0xE8, CHR 0xA6, CHR 0xAA]\<rparr>
  ]"

text \<open>
  The left and right markers of the standard names: the characters U+5DE6 (left) and
  U+53F3 (right) at the start of the name. A left-side entry is one whose name starts
  with the left marker; its mirrored name has the right marker in place of the left one.
\<close>

definition left_marker :: string where
  "left_marker = [CHR 0xE5, CHR 0xB7, CHR 0xA6]"

definition right_marker :: string where
  "right_marker = [CHR 0xE5, CHR 0x8F, CHR 0xB3]"

definition is_left_name :: "string \<Rightarrow> bool" where
  "is_left_name name = startswith name left_marker"

definition mirrored_name :: "string \<Rightarrow> string" where
  "mirrored_name name = right_marker @ drop (length left_marker) name"

definition has_right_counterpart :: "MMDBoneInfo list \<Rightarrow> MMDBoneInfo \<Rightarrow> bool" where
  "has_right_counterpart members entry =
     list_ex (\<lambda>other. mmd_bone_name other = mirrored_name (mmd_bone_name entry)
                       \<and> bone_type other = bone_type entry) members"

section \<open>Bind descriptors and control properties\<close>

datatype GroupType = GROUP_NONE | FACE | TORSO | ARM_L | ARM_R | LEG_L | LEG_R

datatype MMDBindType =
    BIND_NONE
  | COPY_POSE
  | COPY_PARENT
  | COPY_LOCAL
  | COPY_SPINE
  | COPY_TOE
  | COPY_EYE
  | COPY_ROOT
  | COPY_LEG_D

record MMDBindInfo =
  bone_info :: MMDBoneInfo
  pose_bone_name :: "string option"
  bind_bone_name :: "string option"
  group_type :: GroupType
  bind_type :: MMDBindType

record DataPath =
  bone_name :: string
  prop_name :: string

datatype ControlType =
    EYE_MMD_UUUNYAA
  | BIND_MMD_UUUNYAA
  | LEG_L_MMD_UUUNYAA
  | LEG_R_MMD_UUUNYAA
  | TOE_L_MMD_UUUNYAA
  | TOE_R_MMD_UUUNYAA
  | TORSO_NECK_FOLLOW
  | TORSO_HEAD_FOLLOW
  | ARM_L_IK_FK
  | ARM_R_IK_FK
  | ARM_L_IK_STRETCH
  | ARM_R_IK_STRETCH
  | ARM_L_IK_PARENT
  | ARM_R_IK_PARENT
  | ARM_L_POLE_VECTOR
  | ARM_R_POLE_VECTOR
  | LEG_L_IK_FK
  | LEG_R_IK_FK
  | LEG_L_IK_STRETCH
  | LEG_R_IK_STRETCH
  | LEG_L_IK_PARENT
  | LEG_R_IK_PARENT
  | LEG_L_POLE_VECTOR
  | LEG_R_POLE_VECTOR
  | LEG_L_POLE_PARENT
  | LEG_R_POLE_PARENT

section \<open>\<open>RichArmatureObjectABC\<close>\<close>

text \<open>
  The state of a rig: the pose bones of its armature object (the host's collection,
  looked up by bone name and iterated in order) and the two tables a concrete rig class
  supplies. \<open>datapaths\<close> is the dictionary of the registry, keyed by \<open>ControlType\<close>.
\<close>

record RichArmatureObject =
  pose_bones :: "PoseBone list"
  datapaths :: "ControlType \<rightharpoonup> DataPath"
  mmd_bind_infos :: "MMDBindInfo list"

text \<open>
  Modelled from the spec: the host's lookups ("read/write a named custom scalar property on
  a bone"). \<open>pose_bones[name]\<close> and the read \<open>pose_bone[prop]\<close> raise \<open>KeyError\<close> for
  a missing key; the write \<open>pose_bone[prop] = value\<close> creates the property when the bone
  has none of that name. \<open>get_property\<close> and \<open>set_property\<close> are the methods
  \<open>_get_property\<close> and \<open>_set_property\<close>.
\<close>

definition find_bone :: "PoseBone list \<Rightarrow> string \<Rightarrow> PoseBone option" where
  "find_bone bones name = find (\<lambda>pose_bone. pb_name pose_bone = name) bones"

fun update_bone :: "string \<Rightarrow> (PoseBone \<Rightarrow> PoseBone) \<Rightarrow> PoseBone list \<Rightarrow> PoseBone list" where
  "update_bone name f [] = []"
| "update_bone name f (pose_bone # bones) =
     (if pb_name pose_bone = name then f pose_bone # bones
      else pose_bone # update_bone name f bones)"

definition get_property :: "RichArmatureObject \<Rightarrow> ControlType \<Rightarrow> py_error + pyval option" where
  "get_property self control_type =
     (case datapaths self control_type of
        None \<Rightarrow> Inr None
      | Some datapath \<Rightarrow>
          (case find_bone (pose_bones self) (bone_name datapath) of
             None \<Rightarrow> Inl KeyError
           | Some pose_bone \<Rightarrow>
               (case map_of (props pose_bone) (prop_name datapath) of
                  None \<Rightarrow> Inl KeyError
                | Some v \<Rightarrow> Inr (Some v))))"

definition set_property ::
  "RichArmatureObject \<Rightarrow> ControlType \<Rightarrow> pyval \<Rightarrow> py_error + RichArmatureObject" where
  "set_property self control_type v =
     (case datapaths self control_type of
        None \<Rightarrow> Inr self
      | Some datapath \<Rightarrow>
          (case find_bone (pose_bones self) (bone_name datapath) of
             None \<Rightarrow> Inl KeyError
           | Some pose_bone \<Rightarrow>
               Inr (self\<lparr>pose_bones :=
                      update_bone (bone_name datapath)
                        (\<lambda>pb. pb\<lparr>props := AList.update (prop_name datapath) v (props pb)\<rparr>)
                        (pose_bones self)\<rparr>)))"

text \<open>
  The generated accessors: a property and its setter for each control, named after the
  control; the setter carries the suffix \<open>_setter\<close> here.
\<close>

definition torso_neck_follow :: "RichArmatureObject \<Rightarrow> py_error + pyval option" where
  "torso_neck_follow self = get_property self TORSO_NECK_FOLLOW"

definition torso_neck_follow_setter :: "RichArmatureObject \<Rightarrow> pyval \<Rightarrow> py_error + RichArmatureObject" where
  "torso_neck_follow_setter self v = set_property self TORSO_NECK_FOLLOW v"

definition torso_head_follow :: "RichArmatureObject \<Rightarrow> py_error + pyval option" where
  "torso_head_follow self = get_property self TORSO_HEAD_FOLLOW"

definition torso_head_follow_setter :: "RichArmatureObject \<Rightarrow> pyval \<Rightarrow> py_error + RichArmatureObject" where
  "torso_head_follow_setter self v = set_property self TORSO_HEAD_FOLLOW v"

definition arm_l_ik_fk :: "RichArmatureObject \<Rightarrow> py_error + pyval option" where
  "arm_l_ik_fk self = get_property self ARM_L_IK_FK"

definition arm_l_ik_fk_setter :: "RichArmatureObject \<Rightarrow> pyval \<Rightarrow> py_error + RichArmatureObject" where
  "arm_l_ik_fk_setter self v = set_property self ARM_L_IK_FK v"

definition arm_r_ik_fk :: "RichArmatureObject \<Rightarrow> py_error + pyval option" where
  "arm_r_ik_fk self = get_property self ARM_R_IK_FK"

definition arm_r_ik_fk_setter :: "RichArmatureObject \<Rightarrow> pyval \<Rightarrow> py_error + RichArmatureObject" where
  "arm_r_ik_fk_setter self v = set_property self ARM_R_IK_FK v"

definition arm_l_ik_stretch :: "RichArmatureObject \<Rightarrow> py_error + pyval option" where
  "arm_l_ik_stretch self = get_property self ARM_L_IK_STRETCH"

definition arm_l_ik_stretch_setter :: "RichArmatureObject \<Rightarrow> pyval \<Rightarrow> py_error + RichArmatureObject" where
  "arm_l_ik_stretch_setter self v = set_property self ARM_L_IK_STRETCH v"

definition arm_r_ik_stretch :: "RichArmatureObject \<Rightarrow> py_error + pyval option" where
  "arm_r_ik_stretch self = get_property self ARM_R_IK_STRETCH"

definition arm_r_ik_stretch_setter :: "RichArmatureObject \<Rightarrow> pyval \<Rightarrow> py_error + RichArmatureObject" where
  "arm_r_ik_stretch_setter self v = set_property self ARM_R_IK_STRETCH v"

definition arm_l_ik_parent :: "RichArmatureObject \<Rightarrow> py_error + pyval option" where
  "arm_l_ik_parent self = get_property self ARM_L_IK_PARENT"

definition arm_l_ik_parent_setter :: "RichArmatureObject \<Rightarrow> pyval \<Rightarrow> py_error + RichArmatureObject" where
  "arm_l_ik_parent_setter self v = set_property self ARM_L_IK_PARENT v"

definition arm_r_ik_parent :: "RichArmatureObject \<Rightarrow> py_error + pyval option" where
  "arm_r_ik_parent self = get_property self ARM_R_IK_PARENT"

definition arm_r_ik_parent_setter :: "RichArmatureObject \<Rightarrow> pyval \<Rightarrow> py_error + RichArmatureObject" where
  "arm_r_ik_parent_setter self v = set_property self ARM_R_IK_PARENT v"

definition arm_l_pole_vector :: "RichArmatureObject \<Rightarrow> py_error + pyval option" where
  "arm_l_pole_vector self = get_property self ARM_L_POLE_VECTOR"

definition arm_l_pole_vector_setter :: "RichArmatureObject \<Rightarrow> pyval \<Rightarrow> py_error + RichArmatureObject" where
  "arm_l_pole_vector_setter self v = set_property self ARM_L_POLE_VECTOR v"

definition arm_r_pole_vector :: "RichArmatureObject \<Rightarrow> py_error + pyval option" where
  "arm_r_pole_vector self = get_property self ARM_R_POLE_VECTOR"

definition arm_r_pole_vector_setter :: "RichArmatureObject \<Rightarrow> pyval \<Rightarrow> py_error + RichArmatureObject" where
  "arm_r_pole_vector_setter self v = set_property self ARM_R_POLE_VECTOR v"

definition leg_l_ik_fk :: "RichArmatureObject \<Rightarrow> py_error + pyval option" where
  "leg_l_ik_fk self = get_property self LEG_L_IK_FK"

definition leg_l_ik_fk_setter :: "RichArmatureObject \<Rightarrow> pyval \<Rightarrow> py_error + RichArmatureObject" where
  "leg_l_ik_fk_setter self v = set_property self LEG_L_IK_FK v"

definition leg_r_ik_fk :: "RichArmatureObject \<Rightarrow> py_error + pyval option" where
  "leg_r_ik_fk self = get_property self LEG_R_IK_FK"

definition leg_r_ik_fk_setter :: "RichArmatureObject \<Rightarrow> pyval \<Rightarrow> py_error + RichArmatureObject" where
  "leg_r_ik_fk_setter self v = set_property self LEG_R_IK_FK v"

definition leg_l_ik_stretch :: "RichArmatureObject \<Rightarrow> py_error + pyval option" where
  "leg_l_ik_stretch self = get_property self LEG_L_IK_STRETCH"

definition leg_l_ik_stretch_setter :: "RichArmatureObject \<Rightarrow> pyval \<Rightarrow> py_error + RichArmatureObject" where
  "leg_l_ik_stretch_setter self v = set_property self LEG_L_IK_STRETCH v"

definition leg_r_ik_stretch :: "RichArmatureObject \<Rightarrow> py_error + pyval option" where
  "leg_r_ik_stretch self = get_property self LEG_R_IK_STRETCH"

definition leg_r_ik_stretch_setter :: "RichArmatureObject \<Rightarrow> pyval \<Rightarrow> py_error + RichArmatureObject" where
  "leg_r_ik_stretch_setter self v = set_property self LEG_R_IK_STRETCH v"

definition leg_l_ik_parent :: "RichArmatureObject \<Rightarrow> py_error + pyval option" where
  "leg_l_ik_parent self = get_property self LEG_L_IK_PARENT"

definition leg_l_ik_parent_setter :: "RichArmatureObject \<Rightarrow> pyval \<Rightarrow> py_error + RichArmatureObject" where
  "leg_l_ik_parent_setter self v = set_property self LEG_L_IK_PARENT v"

definition leg_r_ik_parent :: "RichArmatureObject \<Rightarrow> py_error + pyval option" where
  "leg_r_ik_parent self = get_property self LEG_R_IK_PARENT"

definition leg_r_ik_parent_setter :: "RichArmatureObject \<Rightarrow> pyval \<Rightarrow> py_error + RichArmatureObject" where
  "leg_r_ik_parent_setter self v = set_property self LEG_R_IK_PARENT v"

definition leg_l_pole_vector :: "RichArmatureObject \<Rightarrow> py_error + pyval option" where
  "leg_l_pole_vector self = get_property self LEG_L_POLE_VECTOR"

definition leg_l_pole_vector_setter :: "RichArmatureObject \<Rightarrow> pyval \<Rightarrow> py_error + RichArmatureObject" where
  "leg_l_pole_vector_setter self v = set_property self LEG_L_POLE_VECTOR v"

definition leg_r_pole_vector :: "RichArmatureObject \<Rightarrow> py_error + pyval option" where
  "leg_r_pole_vector self = get_property self LEG_R_POLE_VECTOR"

definition leg_r_pole_vector_setter :: "RichArmatureObject \<Rightarrow> pyval \<Rightarrow> py_error + RichArmatureObject" where
  "leg_r_pole_vector_setter self v = set_property self LEG_R_POLE_VECTOR v"

definition leg_l_pole_parent :: "RichArmatureObject \<Rightarrow> py_error + pyval option" where
  "leg_l_pole_parent self = get_property self LEG_L_POLE_PARENT"

definition leg_l_pole_parent_setter :: "RichArmatureObject \<Rightarrow> pyval \<Rightarrow> py_error + RichArmatureObject" where
  "leg_l_pole_parent_setter self v = set_property self LEG_L_POLE_PARENT v"

definition leg_r_pole_parent :: "RichArmatureObject \<Rightarrow> py_error + pyval option" where
  "leg_r_pole_parent self = get_property self LEG_R_POLE_PARENT"

definition leg_r_pole_parent_setter :: "RichArmatureObject \<Rightarrow> pyval \<Rightarrow> py_error + RichArmatureObject" where
  "leg_r_pole_parent_setter self v = set_property self LEG_R_POLE_PARENT v"

subsection \<open>\<open>assign_mmd_bone_names\<close>\<close>

text \<open>
  A Python dictionary in insertion order is an association list with distinct keys;
  \<open>d[k] = v\<close> is \<open>AList.update k v d\<close>: the value is replaced in place when the key is
  present and the pair is added at the end otherwise.
\<close>

definition mmd_bone_name2pose_bone_names ::
  "MMDBindInfo list \<Rightarrow> (string \<times> string) list option \<Rightarrow> (string \<times> string option) list" where
  "mmd_bone_name2pose_bone_names infos mmd2pose_bone_name_overrides =
     (let d = fold (\<lambda>b. AList.update (mmd_bone_name (bone_info b)) (pose_bone_name b)) infos []
      in case mmd2pose_bone_name_overrides of
           None \<Rightarrow> d
         | Some overrides \<Rightarrow> fold (\<lambda>(k, v). AList.update k (Some v)) overrides d)"

definition clear_mmd_pose_bone_names ::
  "(string \<times> string option) list \<Rightarrow> PoseBone list \<Rightarrow> PoseBone list" where
  "clear_mmd_pose_bone_names d bones =
     map (\<lambda>pose_bone. if name_j pose_bone \<notin> set (map fst d) then pose_bone
                       else pose_bone\<lparr>name_j := []\<rparr>) bones"

definition assign_names ::
  "(string \<times> string option) list \<Rightarrow> PoseBone list \<Rightarrow> PoseBone list" where
  "assign_names d bones =
     fold (\<lambda>(mmd_bone_name, pose_bone_name) bs.
             case pose_bone_name of
               None \<Rightarrow> bs
             | Some name \<Rightarrow>
                 if name \<notin> set (map pb_name bs) then bs
                 else update_bone name (\<lambda>pb. pb\<lparr>name_j := mmd_bone_name\<rparr>) bs)
       d bones"

definition assign_mmd_bone_names ::
  "RichArmatureObject \<Rightarrow> (string \<times> string) list option \<Rightarrow> RichArmatureObject" where
  "assign_mmd_bone_names self mmd2pose_bone_name_overrides =
     (let d = mmd_bone_name2pose_bone_names (mmd_bind_infos self) mmd2pose_bone_name_overrides
      in self\<lparr>pose_bones := assign_names d (clear_mmd_pose_bone_names d (pose_bones self))\<rparr>)"

text \<open>A rig with one property-storage bone, for the examples.\<close>

definition example_rig :: RichArmatureObject where
  "example_rig =
     \<lparr>pose_bones = [\<lparr>pb_name = ''torso'', constraints = [], name_j = [],
                      props = [(''arm_l_ik_fk'', PFloat 0)]\<rparr>],
      datapaths = [ARM_L_IK_FK \<mapsto> \<lparr>bone_name = ''torso'', prop_name = ''arm_l_ik_fk''\<rparr>,
                   ARM_R_IK_FK \<mapsto> \<lparr>bone_name = ''torso'', prop_name = ''arm_r_ik_fk''\<rparr>,
                   LEG_L_IK_FK \<mapsto> \<lparr>bone_name = ''thigh_parent.L'', prop_name = ''leg_l_ik_fk''\<rparr>],
      mmd_bind_infos = []\<rparr>"

text \<open>Invariants of the assignment loop, and a rig for the examples.\<close>

definition tags_current :: "(string \<times> string option) set \<Rightarrow> string set \<Rightarrow> PoseBone list \<Rightarrow> bool" where
  "tags_current S K bones =
     (\<forall>pb \<in> set bones. name_j pb \<noteq> [] \<and> name_j pb \<in> K \<longrightarrow> (name_j pb, Some (pb_name pb)) \<in> S)"

definition tagged :: "string \<Rightarrow> string \<Rightarrow> PoseBone list \<Rightarrow> bool" where
  "tagged n m bones = (\<exists>pb \<in> set bones. pb_name pb = n \<and> name_j pb = m)"

definition example_bind_rig :: RichArmatureObject where
  "example_bind_rig =
     \<lparr>pose_bones =
        [\<lparr>pb_name = ''upper_arm.L'', constraints = [], name_j = [], props = []\<rparr>,
         \<lparr>pb_name = ''forearm.L'', constraints = [],
           name_j = [CHR 0xE5, CHR 0xB7, CHR 0xA6, CHR 0xE8, CHR 0x85, CHR 0x95], props = []\<rparr>,
         \<lparr>pb_name = ''tail'', constraints = [], name_j = ''tail_j'', props = []\<rparr>],
      datapaths = Map.empty,
      mmd_bind_infos =
        [\<lparr>bone_info = \<lparr>bone_type = STANDARD,
             mmd_bone_name = [CHR 0xE5, CHR 0xB7, CHR 0xA6, CHR 0xE8, CHR 0x85, CHR 0x95]\<rparr>,
           pose_bone_name = Some ''upper_arm.L'', bind_bone_name = None,
           group_type = ARM_L, bind_type = COPY_POSE\<rparr>,
         \<lparr>bone_info = \<lparr>bone_type = UPPER_ARM_TWIST,
             mmd_bone_name = [CHR 0xE5, CHR 0xB7, CHR 0xA6, CHR 0xE8, CHR 0x85, CHR 0x95,
                              CHR 0xE6, CHR 0x8D, CHR 0xA9]\<rparr>,
           pose_bone_name = None, bind_bone_name = None,
           group_type = ARM_L, bind_type = BIND_NONE\<rparr>]\<rparr>"

section \<open>Theorems\<close>

subsection \<open>\<open>to_bone_suffix\<close>\<close>

lemma not_at_dollar_snoc: "c \<noteq> CHR 0x0A \<Longrightarrow> \<not> at_dollar (q @ [c])"
  by (simp add: at_dollar_def)

lemma re_search_side_snoc2:
  assumes "c \<noteq> CHR 0x0A"
  shows "re_search_side (p @ [s, c]) =
     (if is_separator s \<and> is_side_letter c then Some c else None)"
proof (induction p)
  case Nil
  then show ?case by (simp add: at_dollar_def)
next
  case (Cons a p)
  show ?case
  proof (cases p)
    case Nil
    have "\<not> at_dollar [c]" using assms by (simp add: at_dollar_def)
    with Cons Nil show ?thesis by simp
  next
    case (Cons b p')
    have "\<not> at_dollar ((p' @ [s]) @ [c])" using assms by (rule not_at_dollar_snoc)
    then have "\<not> at_dollar (p' @ [s, c])" by simp
    with Cons.IH Cons show ?thesis by simp
  qed
qed

lemma re_search_side_short: "length name < 2 \<Longrightarrow> re_search_side name = None"
  by (cases name rule: re_search_side.cases) simp_all

lemma split_last_two:
  assumes "2 \<le> length name"
  shows "name = butlast (butlast name) @ [name ! (length name - 2), last name]"
proof -
  from assms have ne: "name \<noteq> []" by auto
  then have n1: "name = butlast name @ [last name]" by simp
  from assms have ne2: "butlast name \<noteq> []" by (cases name) (auto split: if_splits)
  then have n2: "butlast name = butlast (butlast name) @ [last (butlast name)]" by simp
  have "last (butlast name) = butlast name ! (length (butlast name) - 1)"
    using ne2 by (simp add: last_conv_nth)
  also have "\<dots> = name ! (length name - 2)"
    using assms by (simp add: nth_butlast numeral_2_eq_2)
  finally have "last (butlast name) = name ! (length name - 2)" .
  with n1 n2 show ?thesis by (metis append.assoc append_Cons append_Nil)
qed

lemma re_search_side_no_newline:
  assumes "name = [] \<or> last name \<noteq> CHR 0x0A"
  shows "re_search_side name =
     (if 2 \<le> length name \<and> is_separator (name ! (length name - 2)) \<and> is_side_letter (last name)
      then Some (last name) else None)"
proof (cases "2 \<le> length name")
  case False
  then show ?thesis by (simp add: re_search_side_short)
next
  case True
  then have "name \<noteq> []" by auto
  with assms have nl: "last name \<noteq> CHR 0x0A" by simp
  from split_last_two [OF True]
  have "re_search_side name =
          re_search_side (butlast (butlast name) @ [name ! (length name - 2), last name])"
    by simp
  then show ?thesis using True by (simp only: re_search_side_snoc2 [OF nl]) simp
qed

text \<open>
  Claim C4, as the code has it. For a bone name that does not end in a newline,
  \<open>to_bone_suffix\<close> returns \<open>'L'\<close> exactly when the name ends with a separator (underscore
  or dot) followed by \<open>l\<close> or \<open>L\<close>, \<open>'R'\<close> exactly when it ends with a separator followed
  by \<open>r\<close> or \<open>R\<close>, and \<open>None\<close> in every other case: the separator is required. The
  three examples of the specification hold: \<open>'leftArm_L'\<close> gives \<open>'L'\<close>, \<open>'leftArm.r'\<close>
  gives \<open>'R'\<close>, \<open>'Spine'\<close> gives \<open>None\<close>.
\<close>

theorem to_bone_suffix_separator_required:
  assumes "name = [] \<or> last name \<noteq> CHR 0x0A"
  shows "to_bone_suffix name =
           (if ends_with_marker name (CHR ''l'') (CHR ''L'') then Some ''L''
            else if ends_with_marker name (CHR ''r'') (CHR ''R'') then Some ''R''
            else None)
         \<and> to_bone_suffix ''leftArm_L'' = Some ''L''
         \<and> to_bone_suffix ''leftArm.r'' = Some ''R''
         \<and> to_bone_suffix ''Spine'' = None"
proof -
  have "to_bone_suffix name =
           (if ends_with_marker name (CHR ''l'') (CHR ''L'') then Some ''L''
            else if ends_with_marker name (CHR ''r'') (CHR ''R'') then Some ''R''
            else None)"
    unfolding to_bone_suffix_def re_search_side_no_newline [OF assms]
    by (auto simp: ends_with_marker_def is_side_letter_def)
  moreover have "to_bone_suffix ''leftArm_L'' = Some ''L''"
    by (simp add: to_bone_suffix_def is_separator_def is_side_letter_def at_dollar_def)
  moreover have "to_bone_suffix ''leftArm.r'' = Some ''R''"
    by (simp add: to_bone_suffix_def is_separator_def is_side_letter_def at_dollar_def)
  moreover have "to_bone_suffix ''Spine'' = None"
    by (simp add: to_bone_suffix_def is_separator_def is_side_letter_def at_dollar_def)
  ultimately show ?thesis by simp
qed

theorem to_bone_suffix_separator_required_witness:
  "(''hand.R'' = [] \<or> last ''hand.R'' \<noteq> CHR 0x0A)
   \<and> ends_with_marker ''hand.R'' (CHR ''r'') (CHR ''R'')
   \<and> to_bone_suffix ''hand.R'' = Some ''R''"
proof -
  have h: "''hand.R'' = [] \<or> last ''hand.R'' \<noteq> CHR 0x0A" by simp
  have m: "ends_with_marker ''hand.R'' (CHR ''r'') (CHR ''R'')"
    by (simp add: ends_with_marker_def is_separator_def)
  have "\<not> ends_with_marker ''hand.R'' (CHR ''l'') (CHR ''L'')"
    by (simp add: ends_with_marker_def)
  with to_bone_suffix_separator_required [OF h] m h show ?thesis by simp
qed

text \<open>
  Claim C4 as the specification words it, with the separator optional, fails on the code:
  \<open>'heel'\<close> ends with the letter \<open>l\<close>, which that reading takes for a left marker, and
  \<open>to_bone_suffix\<close> returns \<open>None\<close> for it.
\<close>

theorem to_bone_suffix_optional_separator_counterexample:
  "side_suffix_separator_optional ''heel'' = Some ''L'' \<and> to_bone_suffix ''heel'' = None"
  by (simp add: side_suffix_separator_optional_def to_bone_suffix_def is_separator_def)

text \<open>
  The anchor also accepts one final newline after the marker, which the sentence above
  leaves aside.
\<close>

lemma to_bone_suffix_final_newline: "to_bone_suffix (''arm_L'' @ [CHR 0x0A]) = Some ''L''"
  by (simp add: to_bone_suffix_def is_separator_def is_side_letter_def at_dollar_def)

subsection \<open>\<open>to_angle\<close>\<close>

lemma atan2_one_one: "atan2 1 1 = pi / 4"
  by (simp add: atan2_def arctan_one)

text \<open>
  Claim C5. For the plane tags \<open>'XY'\<close>, \<open>'XZ'\<close> and \<open>'YZ'\<close>, \<open>to_angle\<close> returns the
  two-argument arctangent of the vector's two coordinates in that plane; it raises
  \<open>ValueError\<close> exactly when the tag is none of the three, as for \<open>'ZZ'\<close>; and the
  vector \<open>(1, 0, 1)\<close> in the plane \<open>'XZ'\<close> gives \<open>atan2(1, 1) = \<pi>/4\<close>.
\<close>

theorem to_angle_planes:
  "to_angle v ''XY'' = Inr (atan2 (y v) (x v))
   \<and> to_angle v ''XZ'' = Inr (atan2 (z v) (x v))
   \<and> to_angle v ''YZ'' = Inr (atan2 (z v) (y v))
   \<and> (to_angle v plane = Inl ValueError) = (plane \<noteq> ''XY'' \<and> plane \<noteq> ''XZ'' \<and> plane \<noteq> ''YZ'')
   \<and> isl (to_angle v plane) = (plane \<noteq> ''XY'' \<and> plane \<noteq> ''XZ'' \<and> plane \<noteq> ''YZ'')
   \<and> to_angle \<lparr>x = 1, y = 0, z = 1\<rparr> ''XZ'' = Inr (atan2 1 1)
   \<and> atan2 1 1 = pi / 4
   \<and> to_angle v ''ZZ'' = Inl ValueError"
  by (simp add: to_angle_def atan2_one_one)
subsection \<open>\<open>PoseUtil\<close>\<close>

lemma remove_constraints_loop_filter:
  "remove_constraints_loop visited cs =
     visited @ filter (\<lambda>c. \<not> startswith (cname c) ''mmd_uuunyaa_'') cs"
  by (induction cs arbitrary: visited) simp_all

lemma map_entry_snoc_fresh:
  "k \<notin> set (map fst xs) \<Longrightarrow> AList.map_entry k f (xs @ [(k, d)]) = xs @ [(k, f d)]"
  by (induction xs) auto

lemma filter_neq_fresh: "k \<notin> set (map fst (filter (\<lambda>pd. fst pd \<noteq> k) xs))"
  by (induction xs) auto

lemma add_influence_driver_fresh:
  assumes "''influence'' \<notin> set (map fst (drivers c))"
  shows "add_influence_driver c t dp invert =
     c\<lparr>drivers := drivers c @
        [(''influence'',
          \<lparr>variables = [\<lparr>var_name = ''mmd_uuunyaa_influence'', var_target_id = t,
                          var_target_data_path = dp\<rparr>],
           expression = (if invert then ''1-mmd_uuunyaa_influence'' else ''+mmd_uuunyaa_influence'')\<rparr>)]\<rparr>"
  using assms
  by (simp add: add_influence_driver_def add_driver_def driver_add_def modify_driver_def
      variables_new_def map_entry_snoc_fresh Let_def)

lemma driver_value_engine:
  "driver_value read
     \<lparr>variables = [\<lparr>var_name = ''mmd_uuunyaa_influence'', var_target_id = t,
                     var_target_data_path = dp\<rparr>],
      expression = (if invert then ''1-mmd_uuunyaa_influence'' else ''+mmd_uuunyaa_influence'')\<rparr>
   = (if invert then map_option (\<lambda>v. 1 - v) (read t dp) else read t dp)"
  by (simp add: driver_value_def eval_expression_def startswith_def)

lemma update_fresh: "k \<notin> set (map fst al) \<Longrightarrow> AList.update k v al = al @ [(k, v)]"
  by (induction al) auto

lemma setattrs_accepted:
  assumes "distinct (map fst kw)"
    and "set (map fst kw) \<inter> set (map fst (attrs c)) = {}"
    and "list_all (\<lambda>kv. attribute_error host (ctype c) (fst kv) (snd kv) = None) kw"
  shows "setattrs host kw c = Inr (c\<lparr>attrs := attrs c @ kw\<rparr>)"
  using assms
proof (induction kw arbitrary: c)
  case Nil
  then show ?case by simp
next
  case (Cons p kw)
  obtain k v where p: "p = (k, v)" by (cases p)
  from Cons.prems p have fresh: "k \<notin> set (map fst (attrs c))" by auto
  from Cons.prems p have ok: "attribute_error host (ctype c) k v = None" by simp
  let ?c = "c\<lparr>attrs := attrs c @ [(k, v)]\<rparr>"
  have step: "setattr host k v c = Inr ?c"
    by (simp add: setattr_def ok update_fresh [OF fresh])
  have "setattrs host kw ?c = Inr (?c\<lparr>attrs := attrs ?c @ kw\<rparr>)"
    using Cons.prems p by (intro Cons.IH) auto
  then show ?case by (simp add: p step)
qed

lemma keyword_clash_iff:
  "keyword_clash names kw = (set (map fst kw) \<inter> set names \<noteq> {})"
  by (auto simp: keyword_clash_def list_ex_iff)

lemma keyword_clash_append:
  "keyword_clash names (a @ b) = (keyword_clash names a \<or> keyword_clash names b)"
  by (auto simp: keyword_clash_def list_ex_iff)

lemma keyword_clash_names_append:
  "keyword_clash (ns @ ms) kw = (keyword_clash ns kw \<or> keyword_clash ms kw)"
  by (auto simp: keyword_clash_def list_ex_iff)

lemma keyword_clash_subset:
  "set ns \<subseteq> set ms \<Longrightarrow> \<not> keyword_clash ms kw \<Longrightarrow> \<not> keyword_clash ns kw"
  by (auto simp: keyword_clash_def list_ex_iff)

lemma add_constraint_result:
  assumes "\<not> keyword_clash [''pose_bone'', ''constraint_type'', ''name''] kw"
    and "distinct (map fst kw)"
    and "host_accepts host ty kw"
  shows "add_constraint host pb ty nm kw =
     Inr (appended pb
            \<lparr>ctype = ty,
              cname = name_given host (map cname (constraints pb)) nm,
              attrs = kw,
              drivers = drivers_kept host (pb_name pb)
                          (name_given host (map cname (constraints pb)) nm)\<rparr>)"
proof -
  let ?given = "name_given host (map cname (constraints pb)) nm"
  let ?first = "name_given host (map cname (constraints pb)) (default_name host ty)"
  let ?c0 = "\<lparr>ctype = ty, cname = ?first, attrs = [],
              drivers = drivers_kept host (pb_name pb) ?first\<rparr>"
  let ?c1 = "\<lparr>ctype = ty, cname = ?given, attrs = [], drivers = drivers_kept host (pb_name pb) ?given\<rparr>"
  let ?pb1 = "pb\<lparr>constraints := constraints pb @ [?c0]\<rparr>"
  let ?pb2 = "pb\<lparr>constraints := constraints pb @ [?c1]\<rparr>"
  from assms(3) have k: "kind_error host ty = None"
    and a: "list_all (\<lambda>kv. attribute_error host ty (fst kv) (snd kv) = None) kw"
    by (simp_all add: host_accepts_def)
  have new: "constraints_new host pb ty = Inr (?pb1, length (constraints pb))"
    by (simp add: constraints_new_def k Let_def)
  have named: "set_name host (length (constraints pb)) nm ?pb1 = ?pb2"
    by (simp add: set_name_def modify_constraint_def Let_def)
  have "setattrs host kw ?c1 = Inr (?c1\<lparr>attrs := attrs ?c1 @ kw\<rparr>)"
    using assms(2) a by (intro setattrs_accepted) simp_all
  then have attrs: "setattrs host kw ?c1 = Inr (?c1\<lparr>attrs := kw\<rparr>)" by simp
  show ?thesis
    using assms(1) by (simp add: add_constraint_def new named attrs appended_def)
qed

lemma map_entry_twice:
  "AList.map_entry k g (AList.map_entry k f xs) = AList.map_entry k (\<lambda>d. g (f d)) xs"
  by (induction xs) auto

lemma map_entry_hits:
  "k \<in> set (map fst xs) \<Longrightarrow> \<exists>d. (k, f d) \<in> set (AList.map_entry k f xs)"
  by (induction xs) auto

lemma add_influence_driver_keeps:
  "ctype (add_influence_driver c t dp invert) = ctype c"
  "cname (add_influence_driver c t dp invert) = cname c"
  "attrs (add_influence_driver c t dp invert) = attrs c"
  by (simp_all add: add_influence_driver_def add_driver_def driver_add_def modify_driver_def
      Let_def)

lemma add_influence_driver_drivers:
  "drivers (add_influence_driver c t dp invert) =
     AList.map_entry ''influence''
       (\<lambda>d. d\<lparr>variables := variables d @
                  [\<lparr>var_name = ''mmd_uuunyaa_influence'', var_target_id = t,
                    var_target_data_path = dp\<rparr>],
               expression := (if invert then ''1-'' else ''+'') @ ''mmd_uuunyaa_influence''\<rparr>)
       (drivers (driver_add ''influence'' c))"
  by (simp add: add_influence_driver_def add_driver_def modify_driver_def variables_new_def
      Let_def map_entry_twice)

lemma driver_add_has_path: "path \<in> set (map fst (drivers (driver_add path c)))"
  by (simp add: driver_add_def)

lemma add_influence_driver_attached:
  "list_ex (\<lambda>d. expression d = expression (influence_driver t dp invert)
                \<and> list_ex (\<lambda>v. var_target_id v = t \<and> var_target_data_path v = dp) (variables d))
     (drivers_at ''influence'' (add_influence_driver c t dp invert))"
proof -
  let ?f = "\<lambda>d. d\<lparr>variables := variables d @
                  [\<lparr>var_name = ''mmd_uuunyaa_influence'', var_target_id = t,
                    var_target_data_path = dp\<rparr>],
               expression := (if invert then ''1-'' else ''+'') @ ''mmd_uuunyaa_influence''\<rparr>"
  from map_entry_hits [OF driver_add_has_path [of "''influence''" c], where f = ?f]
  obtain d where "(''influence'', ?f d) \<in> set (drivers (add_influence_driver c t dp invert))"
    by (auto simp: add_influence_driver_drivers)
  then have "?f d \<in> set (drivers_at ''influence'' (add_influence_driver c t dp invert))"
    by (force simp: drivers_at_def)
  moreover have "expression (?f d) = expression (influence_driver t dp invert)"
    by (simp add: influence_driver_def)
  moreover have "list_ex (\<lambda>v. var_target_id v = t \<and> var_target_data_path v = dp) (variables (?f d))"
    by (simp add: list_ex_iff)
  ultimately show ?thesis
    unfolding list_ex_iff by blast
qed

lemma add_influence_driver_first:
  assumes "''influence'' \<notin> set (map fst (drivers c))"
  shows "drivers (add_influence_driver c t dp invert)
           = drivers c @ [(''influence'', influence_driver t dp invert)]"
  by (simp add: add_influence_driver_fresh [OF assms] influence_driver_def)

lemma authored_after_add_constraint:
  assumes "\<not> keyword_clash [''pose_bone'', ''constraint_type'', ''name''] kw"
    and "distinct (map fst kw)"
    and "host_accepts host ty kw"
  shows "authored host pb ty nm kw t dp invert
           (case add_constraint host pb ty nm kw of
              Inl e \<Rightarrow> Inl e
            | Inr (pb', constraint) \<Rightarrow>
                Inr (modify_constraint constraint (\<lambda>c. add_influence_driver c t dp invert) pb',
                     constraint))"
proof -
  let ?given = "name_given host (map cname (constraints pb)) nm"
  let ?kept = "drivers_kept host (pb_name pb) ?given"
  let ?c1 = "\<lparr>ctype = ty, cname = ?given, attrs = kw, drivers = ?kept\<rparr>"
  let ?c = "add_influence_driver ?c1 t dp invert"
  have r: "(case add_constraint host pb ty nm kw of
              Inl e \<Rightarrow> Inl e
            | Inr (pb', constraint) \<Rightarrow>
                Inr (modify_constraint constraint (\<lambda>c. add_influence_driver c t dp invert) pb',
                     constraint))
           = Inr (appended pb ?c)"
    by (simp add: add_constraint_result [OF assms] appended_def modify_constraint_def)
  have first: "''influence'' \<notin> set (map fst ?kept) \<Longrightarrow>
                 drivers ?c = ?kept @ [(''influence'', influence_driver t dp invert)]"
    using add_influence_driver_first [of ?c1 t dp invert] by simp
  show ?thesis
    unfolding r authored_def
    using add_influence_driver_attached [of t dp invert ?c1] first
    by (simp add: appended_def add_influence_driver_keeps)
qed

lemma copy_attributes_ok:
  assumes "distinct (map fst kwargs)" and "\<not> keyword_clash copy_keywords kwargs"
  shows "distinct (map fst (copy_attributes t st sp @ kwargs))"
    and "\<not> keyword_clash [''pose_bone'', ''constraint_type'', ''name'']
             (copy_attributes t st sp @ kwargs)"
    and "\<not> keyword_clash [''cls'', ''pose_bone'', ''target_object'', ''subtarget'', ''space'',
                            ''influence_data_path'', ''invert_influence''] kwargs"
    and "\<not> keyword_clash [''target'', ''subtarget'', ''target_space'', ''owner_space''] kwargs"
  using assms
  by (auto simp: keyword_clash_iff copy_keywords_def copy_attributes_def)

lemma ik_attributes_ok:
  assumes "distinct (map fst kwargs)" and "\<not> keyword_clash ik_keywords kwargs"
  shows "distinct (map fst (ik_attributes t st cc its @ kwargs))"
    and "\<not> keyword_clash [''pose_bone'', ''constraint_type'', ''name'']
             (ik_attributes t st cc its @ kwargs)"
    and "\<not> keyword_clash [''cls'', ''pose_bone'', ''target_object'', ''subtarget'',
                            ''influence_data_path'', ''chain_count'', ''iterations'',
                            ''invert_influence''] kwargs"
    and "\<not> keyword_clash [''target'', ''subtarget'', ''chain_count'', ''iterations''] kwargs"
  using assms
  by (auto simp: keyword_clash_iff ik_keywords_def ik_attributes_def)

text \<open>
  Claim C1. On every list of pose bones, \<open>remove_constraints\<close> leaves each bone with
  exactly its constraints whose name does not start with \<open>'mmd_uuunyaa_'\<close>, in their
  order, and changes nothing else: every constraint with the prefix is deleted and none
  without it. On bones with no prefixed constraint the result is the input, and the
  function has no failing branch.
\<close>

theorem remove_constraints_deletes_prefixed_only:
  "remove_constraints bones =
     map (\<lambda>pose_bone. pose_bone\<lparr>constraints :=
            filter (\<lambda>c. \<not> startswith (cname c) ''mmd_uuunyaa_'') (constraints pose_bone)\<rparr>)
       bones
   \<and> ((\<forall>pose_bone \<in> set bones. \<forall>c \<in> set (constraints pose_bone).
          \<not> startswith (cname c) ''mmd_uuunyaa_'')
        \<longrightarrow> remove_constraints bones = bones)"
proof -
  have eq: "remove_constraints bones =
     map (\<lambda>pose_bone. pose_bone\<lparr>constraints :=
            filter (\<lambda>c. \<not> startswith (cname c) ''mmd_uuunyaa_'') (constraints pose_bone)\<rparr>)
       bones"
    by (simp add: remove_constraints_def remove_constraints_loop_filter)
  have "remove_constraints bones = bones"
    if h: "\<forall>pose_bone \<in> set bones. \<forall>c \<in> set (constraints pose_bone).
             \<not> startswith (cname c) ''mmd_uuunyaa_''"
  proof -
    have "map (\<lambda>pose_bone. pose_bone\<lparr>constraints :=
            filter (\<lambda>c. \<not> startswith (cname c) ''mmd_uuunyaa_'') (constraints pose_bone)\<rparr>)
          bones = map (\<lambda>pose_bone. pose_bone) bones"
    proof (rule map_cong [OF refl])
      fix pb assume "pb \<in> set bones"
      with h have "\<forall>c \<in> set (constraints pb). \<not> startswith (cname c) ''mmd_uuunyaa_''"
        by blast
      then have "filter (\<lambda>c. \<not> startswith (cname c) ''mmd_uuunyaa_'') (constraints pb)
                   = constraints pb"
        by (simp add: filter_id_conv)
      then show "pb\<lparr>constraints :=
            filter (\<lambda>c. \<not> startswith (cname c) ''mmd_uuunyaa_'') (constraints pb)\<rparr> = pb"
        by simp
    qed
    with eq show ?thesis by simp
  qed
  with eq show ?thesis by blast
qed

theorem remove_constraints_deletes_prefixed_only_witness:
  "list_all (\<lambda>pose_bone. list_all (\<lambda>c. \<not> startswith (cname c) ''mmd_uuunyaa_'')
                (constraints pose_bone))
      [\<lparr>pb_name = ''forearm.L'',
        constraints = [\<lparr>ctype = ''LIMIT_ROTATION'', cname = ''Limit Rotation'', attrs = [], drivers = []\<rparr>],
        name_j = [], props = []\<rparr>]
   \<and> remove_constraints [\<lparr>pb_name = ''forearm.L'',
        constraints = [\<lparr>ctype = ''LIMIT_ROTATION'', cname = ''Limit Rotation'', attrs = [], drivers = []\<rparr>],
        name_j = [], props = []\<rparr>]
     = [\<lparr>pb_name = ''forearm.L'',
        constraints = [\<lparr>ctype = ''LIMIT_ROTATION'', cname = ''Limit Rotation'', attrs = [], drivers = []\<rparr>],
        name_j = [], props = []\<rparr>]
   \<and> remove_constraints [\<lparr>pb_name = ''forearm.L'',
        constraints = [\<lparr>ctype = ''COPY_ROTATION'', cname = ''mmd_uuunyaa_copy_rotation'', attrs = [], drivers = []\<rparr>,
                       \<lparr>ctype = ''IK'', cname = ''mmd_uuunyaa_ik_mmd'', attrs = [], drivers = []\<rparr>,
                       \<lparr>ctype = ''COPY_ROTATION'', cname = ''Copy Rotation'', attrs = [], drivers = []\<rparr>],
        name_j = [], props = []\<rparr>]
     = [\<lparr>pb_name = ''forearm.L'',
        constraints = [\<lparr>ctype = ''COPY_ROTATION'', cname = ''Copy Rotation'', attrs = [], drivers = []\<rparr>],
        name_j = [], props = []\<rparr>]"
proof -
  have h: "\<forall>pose_bone \<in> set [\<lparr>pb_name = ''forearm.L'',
        constraints = [\<lparr>ctype = ''LIMIT_ROTATION'', cname = ''Limit Rotation'', attrs = [], drivers = []\<rparr>],
        name_j = [], props = []\<rparr>].
      \<forall>c \<in> set (constraints pose_bone). \<not> startswith (cname c) ''mmd_uuunyaa_''"
    by (simp add: startswith_def)
  have a: "remove_constraints [\<lparr>pb_name = ''forearm.L'',
        constraints = [\<lparr>ctype = ''LIMIT_ROTATION'', cname = ''Limit Rotation'', attrs = [], drivers = []\<rparr>],
        name_j = [], props = []\<rparr>]
     = [\<lparr>pb_name = ''forearm.L'',
        constraints = [\<lparr>ctype = ''LIMIT_ROTATION'', cname = ''Limit Rotation'', attrs = [], drivers = []\<rparr>],
        name_j = [], props = []\<rparr>]"
    using remove_constraints_deletes_prefixed_only h by blast
  have b: "remove_constraints [\<lparr>pb_name = ''forearm.L'',
        constraints = [\<lparr>ctype = ''COPY_ROTATION'', cname = ''mmd_uuunyaa_copy_rotation'', attrs = [], drivers = []\<rparr>,
                       \<lparr>ctype = ''IK'', cname = ''mmd_uuunyaa_ik_mmd'', attrs = [], drivers = []\<rparr>,
                       \<lparr>ctype = ''COPY_ROTATION'', cname = ''Copy Rotation'', attrs = [], drivers = []\<rparr>],
        name_j = [], props = []\<rparr>]
     = [\<lparr>pb_name = ''forearm.L'',
        constraints = [\<lparr>ctype = ''COPY_ROTATION'', cname = ''Copy Rotation'', attrs = [], drivers = []\<rparr>],
        name_j = [], props = []\<rparr>]"
    by (simp add: remove_constraints_def startswith_def)
  have l: "list_all (\<lambda>pose_bone. list_all (\<lambda>c. \<not> startswith (cname c) ''mmd_uuunyaa_'')
                (constraints pose_bone))
      [\<lparr>pb_name = ''forearm.L'',
        constraints = [\<lparr>ctype = ''LIMIT_ROTATION'', cname = ''Limit Rotation'', attrs = [], drivers = []\<rparr>],
        name_j = [], props = []\<rparr>]"
    by (simp add: startswith_def)
  from l a b show ?thesis by blast
qed

lemma attributes_looked_up:
  "distinct (map fst l) \<Longrightarrow> list_all (\<lambda>kv. map_of l (fst kv) = Some (snd kv)) l"
  by (simp add: list_all_iff)

lemma copy_helpers_clash:
  assumes "keyword_clash copy_keywords kwargs"
  shows "add_copy_transforms_constraint host pb t st sp dp invert kwargs = Inl TypeError"
    and "add_copy_rotation_constraint host pb t st sp dp invert kwargs = Inl TypeError"
    and "add_copy_location_constraint host pb t st sp dp invert kwargs = Inl TypeError"
    and "add_copy_scale_constraint host pb t st sp dp invert kwargs = Inl TypeError"
proof -
  have split: "keyword_clash [''cls'', ''pose_bone'', ''target_object'', ''subtarget'', ''space'',
                              ''influence_data_path'', ''invert_influence''] kwargs
      \<or> keyword_clash [''target'', ''subtarget'', ''target_space'', ''owner_space''] kwargs
      \<or> keyword_clash [''pose_bone'', ''constraint_type'', ''name'']
           ([(''target'', PObj t), (''subtarget'', PStr st),
             (''target_space'', PStr sp), (''owner_space'', PStr sp)] @ kwargs)"
    using assms by (auto simp: keyword_clash_iff copy_keywords_def)
  show "add_copy_transforms_constraint host pb t st sp dp invert kwargs = Inl TypeError"
    using split by (auto simp: add_copy_transforms_constraint_def add_constraint_def)
  show "add_copy_rotation_constraint host pb t st sp dp invert kwargs = Inl TypeError"
    using split by (auto simp: add_copy_rotation_constraint_def add_constraint_def)
  show "add_copy_location_constraint host pb t st sp dp invert kwargs = Inl TypeError"
    using split by (auto simp: add_copy_location_constraint_def add_constraint_def)
  show "add_copy_scale_constraint host pb t st sp dp invert kwargs = Inl TypeError"
    using split by (auto simp: add_copy_scale_constraint_def add_constraint_def)
qed

lemma ik_helper_clash:
  assumes "keyword_clash ik_keywords kwargs"
  shows "add_ik_constraint host pb t st dp cc its invert kwargs = Inl TypeError"
proof -
  have split: "keyword_clash [''cls'', ''pose_bone'', ''target_object'', ''subtarget'',
                              ''influence_data_path'', ''chain_count'', ''iterations'',
                              ''invert_influence''] kwargs
      \<or> keyword_clash [''target'', ''subtarget'', ''chain_count'', ''iterations''] kwargs
      \<or> keyword_clash [''pose_bone'', ''constraint_type'', ''name'']
           ([(''target'', PObj t), (''subtarget'', PStr st),
             (''chain_count'', PInt cc), (''iterations'', PInt its)] @ kwargs)"
    using assms by (auto simp: keyword_clash_iff ik_keywords_def)
  then show ?thesis
    by (auto simp: add_ik_constraint_def add_constraint_def)
qed

lemma add_copy_transforms_constraint_authored:
  assumes "distinct (map fst kwargs)" and "\<not> keyword_clash copy_keywords kwargs"
    and "host_accepts host ''COPY_TRANSFORMS'' (copy_attributes t st sp @ kwargs)"
  shows "authored host pb ''COPY_TRANSFORMS'' ''mmd_uuunyaa_copy_transforms''
           (copy_attributes t st sp @ kwargs) t dp invert
           (add_copy_transforms_constraint host pb t st sp dp invert kwargs)"
  using authored_after_add_constraint
          [OF copy_attributes_ok(2) [OF assms(1,2)] copy_attributes_ok(1) [OF assms(1,2)] assms(3),
           of pb "''mmd_uuunyaa_copy_transforms''" t dp invert]
        copy_attributes_ok(3,4) [OF assms(1,2)]
  by (simp add: add_copy_transforms_constraint_def copy_attributes_def)

lemma add_copy_rotation_constraint_authored:
  assumes "distinct (map fst kwargs)" and "\<not> keyword_clash copy_keywords kwargs"
    and "host_accepts host ''COPY_ROTATION'' (copy_attributes t st sp @ kwargs)"
  shows "authored host pb ''COPY_ROTATION'' ''mmd_uuunyaa_copy_rotation''
           (copy_attributes t st sp @ kwargs) t dp invert
           (add_copy_rotation_constraint host pb t st sp dp invert kwargs)"
  using authored_after_add_constraint
          [OF copy_attributes_ok(2) [OF assms(1,2)] copy_attributes_ok(1) [OF assms(1,2)] assms(3),
           of pb "''mmd_uuunyaa_copy_rotation''" t dp invert]
        copy_attributes_ok(3,4) [OF assms(1,2)]
  by (simp add: add_copy_rotation_constraint_def copy_attributes_def)

lemma add_copy_location_constraint_authored:
  assumes "distinct (map fst kwargs)" and "\<not> keyword_clash copy_keywords kwargs"
    and "host_accepts host ''COPY_LOCATION'' (copy_attributes t st sp @ kwargs)"
  shows "authored host pb ''COPY_LOCATION'' ''mmd_uuunyaa_copy_location''
           (copy_attributes t st sp @ kwargs) t dp invert
           (add_copy_location_constraint host pb t st sp dp invert kwargs)"
  using authored_after_add_constraint
          [OF copy_attributes_ok(2) [OF assms(1,2)] copy_attributes_ok(1) [OF assms(1,2)] assms(3),
           of pb "''mmd_uuunyaa_copy_location''" t dp invert]
        copy_attributes_ok(3,4) [OF assms(1,2)]
  by (simp add: add_copy_location_constraint_def copy_attributes_def)

lemma add_copy_scale_constraint_authored:
  assumes "distinct (map fst kwargs)" and "\<not> keyword_clash copy_keywords kwargs"
    and "host_accepts host ''COPY_SCALE'' (copy_attributes t st sp @ kwargs)"
  shows "authored host pb ''COPY_SCALE'' ''mmd_uuunyaa_copy_scale''
           (copy_attributes t st sp @ kwargs) t dp invert
           (add_copy_scale_constraint host pb t st sp dp invert kwargs)"
  using authored_after_add_constraint
          [OF copy_attributes_ok(2) [OF assms(1,2)] copy_attributes_ok(1) [OF assms(1,2)] assms(3),
           of pb "''mmd_uuunyaa_copy_scale''" t dp invert]
        copy_attributes_ok(3,4) [OF assms(1,2)]
  by (simp add: add_copy_scale_constraint_def copy_attributes_def)

lemma add_ik_constraint_authored:
  assumes "distinct (map fst kwargs)" and "\<not> keyword_clash ik_keywords kwargs"
    and "host_accepts host ''IK'' (ik_attributes t st cc its @ kwargs)"
  shows "authored host pb ''IK'' ''mmd_uuunyaa_ik_mmd''
           (ik_attributes t st cc its @ kwargs) t dp invert
           (add_ik_constraint host pb t st dp cc its invert kwargs)"
  using authored_after_add_constraint
          [OF ik_attributes_ok(2) [OF assms(1,2)] ik_attributes_ok(1) [OF assms(1,2)] assms(3),
           of pb "''mmd_uuunyaa_ik_mmd''" t dp invert]
        ik_attributes_ok(3,4) [OF assms(1,2)]
  by (simp add: add_ik_constraint_def ik_attributes_def)

text \<open>
  Claim C2, as the code has it. Take a keyword dictionary for the extra keyword
  parameters. If it repeats a name that the helper already binds or passes itself
  (\<open>copy_keywords\<close> for the four copy helpers, \<open>ik_keywords\<close> for \<open>add_ik_constraint\<close>),
  the call raises \<open>TypeError\<close>. If it repeats none and the host accepts the kind and the
  attributes, each of the five helpers appends exactly one constraint of its kind to the
  bone's stack and returns the reference to it; the constraint carries, in order, the
  attributes the helper sets from its arguments followed by the extra keyword parameters
  verbatim, each with its value under lookup; a driver on its \<open>influence\<close> has the
  expression \<open>+mmd_uuunyaa_influence\<close>, or \<open>1-mmd_uuunyaa_influence\<close> when inverted, and
  a variable bound to the target and the given data path; and when the host held no
  driver for that \<open>influence\<close> before, that driver is the only one added and has that
  single variable. The four copy helpers (\<open>COPY_TRANSFORMS\<close>, \<open>COPY_ROTATION\<close>,
  \<open>COPY_LOCATION\<close>, \<open>COPY_SCALE\<close>) set \<open>target\<close>, \<open>subtarget\<close>, \<open>target_space\<close> and
  \<open>owner_space\<close> from their arguments, both spaces from \<open>space\<close>. \<open>add_ik_constraint\<close>
  (kind \<open>IK\<close>) sets \<open>target\<close>, \<open>subtarget\<close>, \<open>chain_count\<close> and \<open>iterations\<close> from its
  arguments; it has no space argument, and the constraint has a \<open>target_space\<close> or an
  \<open>owner_space\<close> only as far as the extra keyword parameters give one.
\<close>

theorem constraint_helpers_append_one:
  assumes "distinct (map fst kwargs)"
  shows
    "(keyword_clash copy_keywords kwargs \<longrightarrow>
        add_copy_transforms_constraint host pb t st sp dp invert kwargs = Inl TypeError
      \<and> add_copy_rotation_constraint host pb t st sp dp invert kwargs = Inl TypeError
      \<and> add_copy_location_constraint host pb t st sp dp invert kwargs = Inl TypeError
      \<and> add_copy_scale_constraint host pb t st sp dp invert kwargs = Inl TypeError)
     \<and> (\<not> keyword_clash copy_keywords kwargs \<longrightarrow>
        (host_accepts host ''COPY_TRANSFORMS'' (copy_attributes t st sp @ kwargs) \<longrightarrow>
           authored host pb ''COPY_TRANSFORMS'' ''mmd_uuunyaa_copy_transforms''
             (copy_attributes t st sp @ kwargs) t dp invert
             (add_copy_transforms_constraint host pb t st sp dp invert kwargs))
      \<and> (host_accepts host ''COPY_ROTATION'' (copy_attributes t st sp @ kwargs) \<longrightarrow>
           authored host pb ''COPY_ROTATION'' ''mmd_uuunyaa_copy_rotation''
             (copy_attributes t st sp @ kwargs) t dp invert
             (add_copy_rotation_constraint host pb t st sp dp invert kwargs))
      \<and> (host_accepts host ''COPY_LOCATION'' (copy_attributes t st sp @ kwargs) \<longrightarrow>
           authored host pb ''COPY_LOCATION'' ''mmd_uuunyaa_copy_location''
             (copy_attributes t st sp @ kwargs) t dp invert
             (add_copy_location_constraint host pb t st sp dp invert kwargs))
      \<and> (host_accepts host ''COPY_SCALE'' (copy_attributes t st sp @ kwargs) \<longrightarrow>
           authored host pb ''COPY_SCALE'' ''mmd_uuunyaa_copy_scale''
             (copy_attributes t st sp @ kwargs) t dp invert
             (add_copy_scale_constraint host pb t st sp dp invert kwargs))
      \<and> list_all (\<lambda>kv. map_of (copy_attributes t st sp @ kwargs) (fst kv) = Some (snd kv))
           (copy_attributes t st sp @ kwargs))
     \<and> (keyword_clash ik_keywords kwargs \<longrightarrow>
        add_ik_constraint host pb t st dp cc its invert kwargs = Inl TypeError)
     \<and> (\<not> keyword_clash ik_keywords kwargs \<longrightarrow>
        (host_accepts host ''IK'' (ik_attributes t st cc its @ kwargs) \<longrightarrow>
           authored host pb ''IK'' ''mmd_uuunyaa_ik_mmd''
             (ik_attributes t st cc its @ kwargs) t dp invert
             (add_ik_constraint host pb t st dp cc its invert kwargs))
      \<and> list_all (\<lambda>kv. map_of (ik_attributes t st cc its @ kwargs) (fst kv) = Some (snd kv))
           (ik_attributes t st cc its @ kwargs)
      \<and> map_of (ik_attributes t st cc its @ kwargs) ''target_space'' = map_of kwargs ''target_space''
      \<and> map_of (ik_attributes t st cc its @ kwargs) ''owner_space'' = map_of kwargs ''owner_space'')"
proof (intro conjI impI)
  assume c: "keyword_clash copy_keywords kwargs"
  show "add_copy_transforms_constraint host pb t st sp dp invert kwargs = Inl TypeError"
    by (rule copy_helpers_clash(1) [OF c])
  show "add_copy_rotation_constraint host pb t st sp dp invert kwargs = Inl TypeError"
    by (rule copy_helpers_clash(2) [OF c])
  show "add_copy_location_constraint host pb t st sp dp invert kwargs = Inl TypeError"
    by (rule copy_helpers_clash(3) [OF c])
  show "add_copy_scale_constraint host pb t st sp dp invert kwargs = Inl TypeError"
    by (rule copy_helpers_clash(4) [OF c])
next
  assume n: "\<not> keyword_clash copy_keywords kwargs"
    and h: "host_accepts host ''COPY_TRANSFORMS'' (copy_attributes t st sp @ kwargs)"
  show "authored host pb ''COPY_TRANSFORMS'' ''mmd_uuunyaa_copy_transforms''
          (copy_attributes t st sp @ kwargs) t dp invert
          (add_copy_transforms_constraint host pb t st sp dp invert kwargs)"
    by (rule add_copy_transforms_constraint_authored [OF assms n h])
next
  assume n: "\<not> keyword_clash copy_keywords kwargs"
    and h: "host_accepts host ''COPY_ROTATION'' (copy_attributes t st sp @ kwargs)"
  show "authored host pb ''COPY_ROTATION'' ''mmd_uuunyaa_copy_rotation''
          (copy_attributes t st sp @ kwargs) t dp invert
          (add_copy_rotation_constraint host pb t st sp dp invert kwargs)"
    by (rule add_copy_rotation_constraint_authored [OF assms n h])
next
  assume n: "\<not> keyword_clash copy_keywords kwargs"
    and h: "host_accepts host ''COPY_LOCATION'' (copy_attributes t st sp @ kwargs)"
  show "authored host pb ''COPY_LOCATION'' ''mmd_uuunyaa_copy_location''
          (copy_attributes t st sp @ kwargs) t dp invert
          (add_copy_location_constraint host pb t st sp dp invert kwargs)"
    by (rule add_copy_location_constraint_authored [OF assms n h])
next
  assume n: "\<not> keyword_clash copy_keywords kwargs"
    and h: "host_accepts host ''COPY_SCALE'' (copy_attributes t st sp @ kwargs)"
  show "authored host pb ''COPY_SCALE'' ''mmd_uuunyaa_copy_scale''
          (copy_attributes t st sp @ kwargs) t dp invert
          (add_copy_scale_constraint host pb t st sp dp invert kwargs)"
    by (rule add_copy_scale_constraint_authored [OF assms n h])
next
  assume n: "\<not> keyword_clash copy_keywords kwargs"
  show "list_all (\<lambda>kv. map_of (copy_attributes t st sp @ kwargs) (fst kv) = Some (snd kv))
          (copy_attributes t st sp @ kwargs)"
    by (rule attributes_looked_up [OF copy_attributes_ok(1) [OF assms n]])
next
  assume c: "keyword_clash ik_keywords kwargs"
  show "add_ik_constraint host pb t st dp cc its invert kwargs = Inl TypeError"
    by (rule ik_helper_clash [OF c])
next
  assume n: "\<not> keyword_clash ik_keywords kwargs"
    and h: "host_accepts host ''IK'' (ik_attributes t st cc its @ kwargs)"
  show "authored host pb ''IK'' ''mmd_uuunyaa_ik_mmd''
          (ik_attributes t st cc its @ kwargs) t dp invert
          (add_ik_constraint host pb t st dp cc its invert kwargs)"
    by (rule add_ik_constraint_authored [OF assms n h])
next
  assume n: "\<not> keyword_clash ik_keywords kwargs"
  show "list_all (\<lambda>kv. map_of (ik_attributes t st cc its @ kwargs) (fst kv) = Some (snd kv))
          (ik_attributes t st cc its @ kwargs)"
    by (rule attributes_looked_up [OF ik_attributes_ok(1) [OF assms n]])
next
  show "map_of (ik_attributes t st cc its @ kwargs) ''target_space'' = map_of kwargs ''target_space''"
    by (simp add: ik_attributes_def map_add_def)
next
  show "map_of (ik_attributes t st cc its @ kwargs) ''owner_space'' = map_of kwargs ''owner_space''"
    by (simp add: ik_attributes_def map_add_def)
qed

theorem constraint_helpers_append_one_witness:
  "distinct (map fst [(''mix_mode'', PStr ''ADD'')])
   \<and> \<not> keyword_clash copy_keywords [(''mix_mode'', PStr ''ADD'')]
   \<and> host_accepts example_host ''COPY_ROTATION''
        (copy_attributes 1 ''eyes'' ''LOCAL'' @ [(''mix_mode'', PStr ''ADD'')])
   \<and> ''influence'' \<notin> set (map fst (drivers_kept example_host ''eye.L'' ''mmd_uuunyaa_copy_rotation''))
   \<and> authored example_host \<lparr>pb_name = ''eye.L'', constraints = [], name_j = [], props = []\<rparr>
        ''COPY_ROTATION'' ''mmd_uuunyaa_copy_rotation''
        (copy_attributes 1 ''eyes'' ''LOCAL'' @ [(''mix_mode'', PStr ''ADD'')])
        1 ''eye_mmd_uuunyaa'' True
        (add_copy_rotation_constraint example_host
           \<lparr>pb_name = ''eye.L'', constraints = [], name_j = [], props = []\<rparr>
           1 ''eyes'' ''LOCAL'' ''eye_mmd_uuunyaa'' True [(''mix_mode'', PStr ''ADD'')])
   \<and> add_copy_rotation_constraint example_host
        \<lparr>pb_name = ''eye.L'', constraints = [], name_j = [], props = []\<rparr>
        1 ''eyes'' ''LOCAL'' ''eye_mmd_uuunyaa'' True [(''mix_mode'', PStr ''ADD'')]
      = Inr (\<lparr>pb_name = ''eye.L'',
              constraints = [\<lparr>ctype = ''COPY_ROTATION'', cname = ''mmd_uuunyaa_copy_rotation'',
                attrs = [(''target'', PObj 1), (''subtarget'', PStr ''eyes''),
                         (''target_space'', PStr ''LOCAL''), (''owner_space'', PStr ''LOCAL''),
                         (''mix_mode'', PStr ''ADD'')],
                drivers = [(''influence'',
                  \<lparr>variables = [\<lparr>var_name = ''mmd_uuunyaa_influence'', var_target_id = 1,
                                  var_target_data_path = ''eye_mmd_uuunyaa''\<rparr>],
                   expression = ''1-mmd_uuunyaa_influence''\<rparr>)]\<rparr>],
              name_j = [], props = []\<rparr>, 0)
   \<and> distinct (map fst [(''use_tail'', PBool False)])
   \<and> \<not> keyword_clash ik_keywords [(''use_tail'', PBool False)]
   \<and> host_accepts example_host ''IK''
        (ik_attributes 1 ''hand_ik.L'' 2 200 @ [(''use_tail'', PBool False)])
   \<and> ''influence'' \<notin> set (map fst (drivers_kept example_host ''forearm.L'' ''mmd_uuunyaa_ik_mmd''))
   \<and> authored example_host \<lparr>pb_name = ''forearm.L'', constraints = [], name_j = [], props = []\<rparr>
        ''IK'' ''mmd_uuunyaa_ik_mmd''
        (ik_attributes 1 ''hand_ik.L'' 2 200 @ [(''use_tail'', PBool False)])
        1 ''arm_l_ik_fk'' False
        (add_ik_constraint example_host
           \<lparr>pb_name = ''forearm.L'', constraints = [], name_j = [], props = []\<rparr>
           1 ''hand_ik.L'' ''arm_l_ik_fk'' 2 200 False [(''use_tail'', PBool False)])
   \<and> add_ik_constraint example_host
        \<lparr>pb_name = ''forearm.L'', constraints = [], name_j = [], props = []\<rparr>
        1 ''hand_ik.L'' ''arm_l_ik_fk'' 2 200 False [(''use_tail'', PBool False)]
      = Inr (\<lparr>pb_name = ''forearm.L'',
              constraints = [\<lparr>ctype = ''IK'', cname = ''mmd_uuunyaa_ik_mmd'',
                attrs = [(''target'', PObj 1), (''subtarget'', PStr ''hand_ik.L''),
                         (''chain_count'', PInt 2), (''iterations'', PInt 200),
                         (''use_tail'', PBool False)],
                drivers = [(''influence'',
                  \<lparr>variables = [\<lparr>var_name = ''mmd_uuunyaa_influence'', var_target_id = 1,
                                  var_target_data_path = ''arm_l_ik_fk''\<rparr>],
                   expression = ''+mmd_uuunyaa_influence''\<rparr>)]\<rparr>],
              name_j = [], props = []\<rparr>, 0)
   \<and> distinct (map fst [(''space'', PStr ''WORLD'')])
   \<and> keyword_clash copy_keywords [(''space'', PStr ''WORLD'')]
   \<and> add_copy_rotation_constraint example_host
        \<lparr>pb_name = ''eye.L'', constraints = [], name_j = [], props = []\<rparr>
        1 ''eyes'' ''LOCAL'' ''eye_mmd_uuunyaa'' True [(''space'', PStr ''WORLD'')]
      = Inl TypeError
   \<and> distinct (map fst [(''iterations'', PInt 5)])
   \<and> keyword_clash ik_keywords [(''iterations'', PInt 5)]
   \<and> add_ik_constraint example_host
        \<lparr>pb_name = ''forearm.L'', constraints = [], name_j = [], props = []\<rparr>
        1 ''hand_ik.L'' ''arm_l_ik_fk'' 2 200 False [(''iterations'', PInt 5)]
      = Inl TypeError"
proof -
  let ?eye = "\<lparr>pb_name = ''eye.L'', constraints = [], name_j = [], props = []\<rparr>"
  let ?arm = "\<lparr>pb_name = ''forearm.L'', constraints = [], name_j = [], props = []\<rparr>"
  have d1: "distinct (map fst [(''mix_mode'', PStr ''ADD'')])" by simp
  have n1: "\<not> keyword_clash copy_keywords [(''mix_mode'', PStr ''ADD'')]"
    by (simp add: keyword_clash_def copy_keywords_def)
  have a1: "host_accepts example_host ''COPY_ROTATION''
        (copy_attributes 1 ''eyes'' ''LOCAL'' @ [(''mix_mode'', PStr ''ADD'')])"
    by (simp add: host_accepts_def example_host_def copy_attributes_def)
  have k1: "''influence'' \<notin> set (map fst (drivers_kept example_host ''eye.L'' ''mmd_uuunyaa_copy_rotation''))"
    by (simp add: example_host_def)
  have r1: "authored example_host ?eye ''COPY_ROTATION'' ''mmd_uuunyaa_copy_rotation''
        (copy_attributes 1 ''eyes'' ''LOCAL'' @ [(''mix_mode'', PStr ''ADD'')])
        1 ''eye_mmd_uuunyaa'' True
        (add_copy_rotation_constraint example_host ?eye
           1 ''eyes'' ''LOCAL'' ''eye_mmd_uuunyaa'' True [(''mix_mode'', PStr ''ADD'')])"
    using constraint_helpers_append_one [OF d1, where host = example_host and pb = ?eye
        and t = 1 and st = "''eyes''" and sp = "''LOCAL''" and dp = "''eye_mmd_uuunyaa''"
        and invert = True and cc = 0 and its = 0] n1 a1
    by blast
  have e1: "add_copy_rotation_constraint example_host ?eye
        1 ''eyes'' ''LOCAL'' ''eye_mmd_uuunyaa'' True [(''mix_mode'', PStr ''ADD'')]
      = Inr (\<lparr>pb_name = ''eye.L'',
              constraints = [\<lparr>ctype = ''COPY_ROTATION'', cname = ''mmd_uuunyaa_copy_rotation'',
                attrs = [(''target'', PObj 1), (''subtarget'', PStr ''eyes''),
                         (''target_space'', PStr ''LOCAL''), (''owner_space'', PStr ''LOCAL''),
                         (''mix_mode'', PStr ''ADD'')],
                drivers = [(''influence'',
                  \<lparr>variables = [\<lparr>var_name = ''mmd_uuunyaa_influence'', var_target_id = 1,
                                  var_target_data_path = ''eye_mmd_uuunyaa''\<rparr>],
                   expression = ''1-mmd_uuunyaa_influence''\<rparr>)]\<rparr>],
              name_j = [], props = []\<rparr>, 0)"
    by (simp add: add_copy_rotation_constraint_def add_constraint_def keyword_clash_def
        constraints_new_def set_name_def modify_constraint_def setattr_def example_host_def
        add_influence_driver_def add_driver_def driver_add_def modify_driver_def
        variables_new_def)
  have d2: "distinct (map fst [(''use_tail'', PBool False)])" by simp
  have n2: "\<not> keyword_clash ik_keywords [(''use_tail'', PBool False)]"
    by (simp add: keyword_clash_def ik_keywords_def)
  have a2: "host_accepts example_host ''IK''
        (ik_attributes 1 ''hand_ik.L'' 2 200 @ [(''use_tail'', PBool False)])"
    by (simp add: host_accepts_def example_host_def ik_attributes_def)
  have k2: "''influence'' \<notin> set (map fst (drivers_kept example_host ''forearm.L'' ''mmd_uuunyaa_ik_mmd''))"
    by (simp add: example_host_def)
  have r2: "authored example_host ?arm ''IK'' ''mmd_uuunyaa_ik_mmd''
        (ik_attributes 1 ''hand_ik.L'' 2 200 @ [(''use_tail'', PBool False)])
        1 ''arm_l_ik_fk'' False
        (add_ik_constraint example_host ?arm
           1 ''hand_ik.L'' ''arm_l_ik_fk'' 2 200 False [(''use_tail'', PBool False)])"
    using constraint_helpers_append_one [OF d2, where host = example_host and pb = ?arm
        and t = 1 and st = "''hand_ik.L''" and sp = "''LOCAL''" and dp = "''arm_l_ik_fk''"
        and invert = False and cc = 2 and its = 200] n2 a2
    by blast
  have e2: "add_ik_constraint example_host ?arm
        1 ''hand_ik.L'' ''arm_l_ik_fk'' 2 200 False [(''use_tail'', PBool False)]
      = Inr (\<lparr>pb_name = ''forearm.L'',
              constraints = [\<lparr>ctype = ''IK'', cname = ''mmd_uuunyaa_ik_mmd'',
                attrs = [(''target'', PObj 1), (''subtarget'', PStr ''hand_ik.L''),
                         (''chain_count'', PInt 2), (''iterations'', PInt 200),
                         (''use_tail'', PBool False)],
                drivers = [(''influence'',
                  \<lparr>variables = [\<lparr>var_name = ''mmd_uuunyaa_influence'', var_target_id = 1,
                                  var_target_data_path = ''arm_l_ik_fk''\<rparr>],
                   expression = ''+mmd_uuunyaa_influence''\<rparr>)]\<rparr>],
              name_j = [], props = []\<rparr>, 0)"
    by (simp add: add_ik_constraint_def add_constraint_def keyword_clash_def
        constraints_new_def set_name_def modify_constraint_def setattr_def example_host_def
        add_influence_driver_def add_driver_def driver_add_def modify_driver_def
        variables_new_def)
  have d3: "distinct (map fst [(''space'', PStr ''WORLD'')])" by simp
  have c3: "keyword_clash copy_keywords [(''space'', PStr ''WORLD'')]"
    by (simp add: keyword_clash_def copy_keywords_def)
  have r3: "add_copy_rotation_constraint example_host ?eye
        1 ''eyes'' ''LOCAL'' ''eye_mmd_uuunyaa'' True [(''space'', PStr ''WORLD'')]
      = Inl TypeError"
    using constraint_helpers_append_one [OF d3, where host = example_host and pb = ?eye
        and t = 1 and st = "''eyes''" and sp = "''LOCAL''" and dp = "''eye_mmd_uuunyaa''"
        and invert = True and cc = 0 and its = 0] c3
    by blast
  have d4: "distinct (map fst [(''iterations'', PInt 5)])" by simp
  have c4: "keyword_clash ik_keywords [(''iterations'', PInt 5)]"
    by (simp add: keyword_clash_def ik_keywords_def)
  have r4: "add_ik_constraint example_host ?arm
        1 ''hand_ik.L'' ''arm_l_ik_fk'' 2 200 False [(''iterations'', PInt 5)]
      = Inl TypeError"
    using constraint_helpers_append_one [OF d4, where host = example_host and pb = ?arm
        and t = 1 and st = "''hand_ik.L''" and sp = "''LOCAL''" and dp = "''arm_l_ik_fk''"
        and invert = False and cc = 2 and its = 200] c4
    by blast
  from d1 n1 a1 k1 r1 e1 d2 n2 a2 k2 r2 e2 d3 c3 r3 d4 c4 r4 show ?thesis
    by (intro conjI)
qed

text \<open>
  Claim C2 as the specification words it fails for \<open>add_ik_constraint\<close>: the helper has
  no space argument, and called without extra keyword parameters it returns a constraint
  that carries neither \<open>target_space\<close> nor \<open>owner_space\<close>.
\<close>

theorem add_ik_constraint_sets_no_space_counterexample:
  "add_ik_constraint example_host
      \<lparr>pb_name = ''forearm.L'', constraints = [], name_j = [], props = []\<rparr>
      1 ''hand_ik.L'' ''arm_l_ik_fk'' 2 200 False []
     = Inr (appended \<lparr>pb_name = ''forearm.L'', constraints = [], name_j = [], props = []\<rparr>
         \<lparr>ctype = ''IK'', cname = ''mmd_uuunyaa_ik_mmd'',
           attrs = [(''target'', PObj 1), (''subtarget'', PStr ''hand_ik.L''),
                    (''chain_count'', PInt 2), (''iterations'', PInt 200)],
           drivers = [(''influence'', influence_driver 1 ''arm_l_ik_fk'' False)]\<rparr>)
   \<and> map_of [(''target'', PObj 1), (''subtarget'', PStr ''hand_ik.L''),
              (''chain_count'', PInt 2), (''iterations'', PInt 200)] ''target_space'' = None
   \<and> map_of [(''target'', PObj 1), (''subtarget'', PStr ''hand_ik.L''),
              (''chain_count'', PInt 2), (''iterations'', PInt 200)] ''owner_space'' = None"
  by (simp add: add_ik_constraint_def add_constraint_def keyword_clash_def
      constraints_new_def set_name_def modify_constraint_def setattr_def example_host_def
      add_influence_driver_def add_driver_def driver_add_def modify_driver_def
      variables_new_def influence_driver_def appended_def)

text \<open>
  Two cases outside the conditions of the theorem above. An attribute the host does
  not know for the kind makes the call fail with the host's error. A driver that the host
  still holds for the \<open>influence\<close> of a constraint of the helper's name on the bone is
  taken up by the new constraint: the helper sets its expression and adds its variable
  after the one the driver had.
\<close>

lemma add_ik_constraint_unknown_attribute:
  "add_ik_constraint example_host
      \<lparr>pb_name = ''forearm.L'', constraints = [], name_j = [], props = []\<rparr>
      1 ''hand_ik.L'' ''arm_l_ik_fk'' 2 200 False [(''mix_mode'', PStr ''ADD'')]
     = Inl AttributeError"
  by (simp add: add_ik_constraint_def add_constraint_def keyword_clash_def
      constraints_new_def set_name_def modify_constraint_def setattr_def example_host_def)

lemma add_ik_constraint_kept_driver:
  "map (\<lambda>c. map (\<lambda>pd. map var_target_data_path (variables (snd pd))) (drivers c))
     (constraints (fst (projr
        (add_ik_constraint
           (example_host\<lparr>drivers_kept := \<lambda>bone name.
              [(''influence'', influence_driver 1 ''earlier_path'' False)]\<rparr>)
           \<lparr>pb_name = ''forearm.L'', constraints = [], name_j = [], props = []\<rparr>
           1 ''hand_ik.L'' ''arm_l_ik_fk'' 2 200 True []))))
   = [[[''earlier_path'', ''arm_l_ik_fk'']]]"
  by (simp add: add_ik_constraint_def add_constraint_def keyword_clash_def
      constraints_new_def set_name_def modify_constraint_def setattr_def example_host_def
      add_influence_driver_def add_driver_def driver_add_def modify_driver_def
      variables_new_def influence_driver_def)

text \<open>
  Claim C3. Whatever drivers a constraint carries before the call, hence after any number
  of earlier \<open>add_influence_driver\<close> and \<open>update_influence_driver\<close> calls, exactly one
  driver is attached to its \<open>influence\<close> after \<open>update_influence_driver\<close>; that driver
  has the single variable \<open>mmd_uuunyaa_influence\<close> bound to the given target and data
  path, and its expression evaluates to the value of that property when
  \<open>invert_influence\<close> is false and to one minus the value when it is true.
\<close>

theorem update_influence_driver_replaces:
  "drivers_at ''influence'' (update_influence_driver constraint target data_path invert_influence) =
     [\<lparr>variables = [\<lparr>var_name = ''mmd_uuunyaa_influence'', var_target_id = target,
                      var_target_data_path = data_path\<rparr>],
       expression = (if invert_influence then ''1-mmd_uuunyaa_influence''
                     else ''+mmd_uuunyaa_influence'')\<rparr>]
   \<and> driver_value read
       \<lparr>variables = [\<lparr>var_name = ''mmd_uuunyaa_influence'', var_target_id = target,
                      var_target_data_path = data_path\<rparr>],
        expression = (if invert_influence then ''1-mmd_uuunyaa_influence''
                      else ''+mmd_uuunyaa_influence'')\<rparr>
     = (if invert_influence then map_option (\<lambda>v. 1 - v) (read target data_path)
        else read target data_path)
   \<and> length (drivers_at ''influence''
        (update_influence_driver
           (add_influence_driver (add_influence_driver constraint target data_path invert_influence)
              target data_path invert_influence)
           target data_path invert_influence)) = 1"
proof -
  have fresh: "''influence'' \<notin> set (map fst (drivers (driver_remove ''influence'' c)))" for c
    using filter_neq_fresh [of "''influence''" "drivers c"] by (simp add: driver_remove_def)
  have one: "drivers_at ''influence'' (update_influence_driver c target data_path invert_influence) =
     [\<lparr>variables = [\<lparr>var_name = ''mmd_uuunyaa_influence'', var_target_id = target,
                      var_target_data_path = data_path\<rparr>],
       expression = (if invert_influence then ''1-mmd_uuunyaa_influence''
                     else ''+mmd_uuunyaa_influence'')\<rparr>]" for c
    unfolding update_influence_driver_def add_influence_driver_fresh [OF fresh]
    by (simp add: drivers_at_def driver_remove_def)
  show ?thesis
    by (simp only: one driver_value_engine) simp
qed

subsection \<open>Control properties\<close>

lemma find_bone_None_iff: "find_bone bones n = None \<longleftrightarrow> n \<notin> set (map pb_name bones)"
  by (auto simp: find_bone_def find_None_iff)

lemma find_bone_update_bone:
  assumes "\<And>pb. pb_name (f pb) = pb_name pb"
  shows "find_bone (update_bone n f bones) n = map_option f (find_bone bones n)"
  using assms by (induction bones) (auto simp: find_bone_def)

lemma map_name_update_bone:
  assumes "\<And>pb. pb_name (f pb) = pb_name pb"
  shows "map pb_name (update_bone n f bones) = map pb_name bones"
  using assms by (induction bones) auto

lemma set_then_get:
  assumes "datapaths rig ct = Some dp"
    and "find_bone (pose_bones rig) (bone_name dp) = Some pb"
  shows "\<exists>rig'. set_property rig ct v = Inr rig' \<and> get_property rig' ct = Inr (Some v)"
proof -
  let ?f = "\<lambda>pb. pb\<lparr>props := AList.update (prop_name dp) v (props pb)\<rparr>"
  let ?rig = "rig\<lparr>pose_bones := update_bone (bone_name dp) ?f (pose_bones rig)\<rparr>"
  have s: "set_property rig ct v = Inr ?rig"
    using assms by (simp add: set_property_def)
  have "find_bone (pose_bones ?rig) (bone_name dp) = Some (?f pb)"
    using assms(2) by (simp add: find_bone_update_bone)
  then have "get_property ?rig ct = Inr (Some v)"
    using assms(1) by (simp add: get_property_def update_conv)
  with s show ?thesis by blast
qed

text \<open>
  Claim C6. When the registry has no entry for a control, the getter returns \<open>None\<close>
  and the setter returns the rig as it was; neither raises. Every generated accessor is
  \<open>get_property\<close> or \<open>set_property\<close> at its control.
\<close>

theorem accessor_without_registry_entry:
  assumes "datapaths rig control_type = None"
  shows "get_property rig control_type = Inr None
         \<and> set_property rig control_type v = Inr rig"
  using assms by (simp add: get_property_def set_property_def)

theorem accessor_without_registry_entry_witness:
  "datapaths example_rig LEG_R_POLE_PARENT = None
   \<and> leg_r_pole_parent example_rig = Inr None
   \<and> leg_r_pole_parent_setter example_rig (PFloat 1) = Inr example_rig"
proof -
  have h: "datapaths example_rig LEG_R_POLE_PARENT = None"
    by (simp add: example_rig_def)
  from accessor_without_registry_entry [OF h] h show ?thesis
    by (simp add: leg_r_pole_parent_def leg_r_pole_parent_setter_def)
qed

text \<open>
  Claim C7. When the registry resolves the control's data path and the owner bone is among
  the rig's pose bones, setting the control to \<open>v\<close> succeeds, and reading the control
  in the resulting rig returns \<open>v\<close>.
\<close>

theorem set_then_get_returns_value:
  assumes "datapaths rig control_type = Some datapath"
    and "bone_name datapath \<in> set (map pb_name (pose_bones rig))"
  shows "\<exists>rig'. set_property rig control_type v = Inr rig'
                \<and> get_property rig' control_type = Inr (Some v)"
proof -
  from assms(2) obtain pb where "find_bone (pose_bones rig) (bone_name datapath) = Some pb"
    using find_bone_None_iff [of "pose_bones rig" "bone_name datapath"] by (cases "find_bone (pose_bones rig) (bone_name datapath)") auto
  with assms(1) show ?thesis by (rule set_then_get)
qed

theorem set_then_get_returns_value_witness:
  "datapaths example_rig ARM_L_IK_FK = Some \<lparr>bone_name = ''torso'', prop_name = ''arm_l_ik_fk''\<rparr>
   \<and> ''torso'' \<in> set (map pb_name (pose_bones example_rig))
   \<and> (\<exists>rig'. arm_l_ik_fk_setter example_rig (PFloat 1) = Inr rig'
              \<and> arm_l_ik_fk rig' = Inr (Some (PFloat 1)))"
proof -
  have h: "datapaths example_rig ARM_L_IK_FK = Some \<lparr>bone_name = ''torso'', prop_name = ''arm_l_ik_fk''\<rparr>"
    by (simp add: example_rig_def)
  have b: "bone_name \<lparr>bone_name = ''torso'', prop_name = ''arm_l_ik_fk''\<rparr>
             \<in> set (map pb_name (pose_bones example_rig))"
    by (simp add: example_rig_def)
  from set_then_get_returns_value [OF h b, of "PFloat 1"] h b show ?thesis
    by (simp add: arm_l_ik_fk_def arm_l_ik_fk_setter_def)
qed

text \<open>
  Claim C10, as the code has it. With a data path resolved by the registry: when the
  owner bone is not among the rig's pose bones, getter and setter both raise \<open>KeyError\<close>;
  when the bone is there and has no property of the data path's name, the getter raises
  \<open>KeyError\<close>, and the setter does not raise: it creates the property with the value,
  which the getter then returns.
\<close>

theorem missing_bone_or_property:
  assumes "datapaths rig control_type = Some datapath"
  shows "(bone_name datapath \<notin> set (map pb_name (pose_bones rig)) \<longrightarrow>
            get_property rig control_type = Inl KeyError
            \<and> set_property rig control_type v = Inl KeyError)
         \<and> (\<forall>pose_bone. find_bone (pose_bones rig) (bone_name datapath) = Some pose_bone
               \<and> map_of (props pose_bone) (prop_name datapath) = None \<longrightarrow>
            get_property rig control_type = Inl KeyError
            \<and> (\<exists>rig'. set_property rig control_type v = Inr rig'
                       \<and> get_property rig' control_type = Inr (Some v)))"
proof (intro conjI impI allI)
  assume "bone_name datapath \<notin> set (map pb_name (pose_bones rig))"
  then have n: "find_bone (pose_bones rig) (bone_name datapath) = None"
    by (simp add: find_bone_None_iff)
  with assms show "get_property rig control_type = Inl KeyError"
    by (simp add: get_property_def)
  from n assms show "set_property rig control_type v = Inl KeyError"
    by (simp add: set_property_def)
next
  fix pose_bone
  assume a: "find_bone (pose_bones rig) (bone_name datapath) = Some pose_bone
               \<and> map_of (props pose_bone) (prop_name datapath) = None"
  with assms show "get_property rig control_type = Inl KeyError"
    by (simp add: get_property_def)
  from a assms show "\<exists>rig'. set_property rig control_type v = Inr rig'
                       \<and> get_property rig' control_type = Inr (Some v)"
    by (intro set_then_get) auto
qed

theorem missing_bone_or_property_witness:
  "datapaths example_rig LEG_L_IK_FK = Some \<lparr>bone_name = ''thigh_parent.L'', prop_name = ''leg_l_ik_fk''\<rparr>
   \<and> ''thigh_parent.L'' \<notin> set (map pb_name (pose_bones example_rig))
   \<and> leg_l_ik_fk example_rig = Inl KeyError
   \<and> leg_l_ik_fk_setter example_rig (PFloat 1) = Inl KeyError
   \<and> datapaths example_rig ARM_R_IK_FK = Some \<lparr>bone_name = ''torso'', prop_name = ''arm_r_ik_fk''\<rparr>
   \<and> find_bone (pose_bones example_rig) ''torso''
       = Some \<lparr>pb_name = ''torso'', constraints = [], name_j = [],
               props = [(''arm_l_ik_fk'', PFloat 0)]\<rparr>
   \<and> map_of [(''arm_l_ik_fk'', PFloat 0)] ''arm_r_ik_fk'' = None
   \<and> arm_r_ik_fk example_rig = Inl KeyError
   \<and> (\<exists>rig'. arm_r_ik_fk_setter example_rig (PFloat 1) = Inr rig'
              \<and> arm_r_ik_fk rig' = Inr (Some (PFloat 1)))"
proof -
  have h1: "datapaths example_rig LEG_L_IK_FK
              = Some \<lparr>bone_name = ''thigh_parent.L'', prop_name = ''leg_l_ik_fk''\<rparr>"
    by (simp add: example_rig_def)
  have n1: "''thigh_parent.L'' \<notin> set (map pb_name (pose_bones example_rig))"
    by (simp add: example_rig_def)
  have h2: "datapaths example_rig ARM_R_IK_FK
              = Some \<lparr>bone_name = ''torso'', prop_name = ''arm_r_ik_fk''\<rparr>"
    by (simp add: example_rig_def)
  have f2: "find_bone (pose_bones example_rig) ''torso''
       = Some \<lparr>pb_name = ''torso'', constraints = [], name_j = [],
               props = [(''arm_l_ik_fk'', PFloat 0)]\<rparr>"
    by (simp add: example_rig_def find_bone_def)
  have m2: "map_of [(''arm_l_ik_fk'', PFloat 0)] ''arm_r_ik_fk'' = None" by simp
  from missing_bone_or_property [OF h1, of "PFloat 1"] n1
  have r1: "leg_l_ik_fk example_rig = Inl KeyError
            \<and> leg_l_ik_fk_setter example_rig (PFloat 1) = Inl KeyError"
    by (simp add: leg_l_ik_fk_def leg_l_ik_fk_setter_def)
  from missing_bone_or_property [OF h2, of "PFloat 1"] f2 m2
  have r2: "arm_r_ik_fk example_rig = Inl KeyError
            \<and> (\<exists>rig'. arm_r_ik_fk_setter example_rig (PFloat 1) = Inr rig'
              \<and> arm_r_ik_fk rig' = Inr (Some (PFloat 1)))"
    by (simp add: arm_r_ik_fk_def arm_r_ik_fk_setter_def)
  from h1 n1 h2 f2 m2 r1 r2 show ?thesis by blast
qed

text \<open>
  Claim C10 as worded fails for the setter when only the property is missing: the bone
  \<open>torso\<close> of the example rig has no property \<open>arm_r_ik_fk\<close>, and the setter returns
  the rig with that property created instead of raising.
\<close>

theorem setter_creates_missing_property_counterexample:
  "datapaths example_rig ARM_R_IK_FK = Some \<lparr>bone_name = ''torso'', prop_name = ''arm_r_ik_fk''\<rparr>
   \<and> find_bone (pose_bones example_rig) ''torso''
       = Some \<lparr>pb_name = ''torso'', constraints = [], name_j = [],
               props = [(''arm_l_ik_fk'', PFloat 0)]\<rparr>
   \<and> map_of [(''arm_l_ik_fk'', PFloat 0)] ''arm_r_ik_fk'' = None
   \<and> arm_r_ik_fk_setter example_rig (PFloat 1)
       = Inr (example_rig\<lparr>pose_bones :=
                [\<lparr>pb_name = ''torso'', constraints = [], name_j = [],
                  props = [(''arm_l_ik_fk'', PFloat 0), (''arm_r_ik_fk'', PFloat 1)]\<rparr>]\<rparr>)"
  by (simp add: example_rig_def arm_r_ik_fk_setter_def set_property_def find_bone_def)

subsection \<open>\<open>assign_mmd_bone_names\<close>\<close>

lemma distinct_fold_update:
  "distinct (map fst d) \<Longrightarrow> distinct (map fst (fold (\<lambda>x. AList.update (kf x) (vf x)) xs d))"
  by (induction xs arbitrary: d) (simp_all add: distinct_update)

lemma distinct_mmd_bone_name2pose_bone_names:
  "distinct (map fst (mmd_bone_name2pose_bone_names infos overrides))"
proof -
  let ?d = "fold (\<lambda>b. AList.update (mmd_bone_name (bone_info b)) (pose_bone_name b)) infos []"
  have d: "distinct (map fst ?d)"
    by (rule distinct_fold_update) simp
  show ?thesis
  proof (cases overrides)
    case None
    with d show ?thesis by (simp add: mmd_bone_name2pose_bone_names_def)
  next
    case (Some ov)
    have e: "(\<lambda>(k, v). AList.update k (Some v)) = (\<lambda>x. AList.update (fst x) (Some (snd x)))"
      by (simp add: fun_eq_iff split_beta)
    have "distinct (map fst (fold (\<lambda>(k, v). AList.update k (Some v)) ov ?d))"
      unfolding e by (rule distinct_fold_update [OF d])
    with Some show ?thesis by (simp add: mmd_bone_name2pose_bone_names_def)
  qed
qed

lemma set_update_bone:
  "pb \<in> set (update_bone n f bones) \<Longrightarrow>
   pb \<in> set bones \<or> (\<exists>old \<in> set bones. pb_name old = n \<and> pb = f old)"
  by (induction bones) (auto split: if_splits)

lemma tags_current_clear:
  "tags_current S (set (map fst d)) (clear_mmd_pose_bone_names d bones)"
  by (auto simp: tags_current_def clear_mmd_pose_bone_names_def)

lemma tags_current_step:
  assumes "tags_current S K bones" and "(m, Some n) \<in> S"
  shows "tags_current S K (update_bone n (\<lambda>pb. pb\<lparr>name_j := m\<rparr>) bones)"
  unfolding tags_current_def
proof (intro ballI impI)
  fix pb
  assume in_new: "pb \<in> set (update_bone n (\<lambda>pb. pb\<lparr>name_j := m\<rparr>) bones)"
    and tag: "name_j pb \<noteq> [] \<and> name_j pb \<in> K"
  from set_update_bone [OF in_new]
  show "(name_j pb, Some (pb_name pb)) \<in> S"
  proof
    assume "pb \<in> set bones"
    with assms(1) tag show ?thesis by (auto simp: tags_current_def)
  next
    assume "\<exists>old \<in> set bones. pb_name old = n \<and> pb = old\<lparr>name_j := m\<rparr>"
    then obtain old where "pb_name old = n" "pb = old\<lparr>name_j := m\<rparr>" by blast
    with assms(2) show ?thesis by simp
  qed
qed

lemma tags_current_assign:
  "tags_current S K bones \<Longrightarrow> set items \<subseteq> S \<Longrightarrow> tags_current S K (assign_names items bones)"
proof (induction items arbitrary: bones)
  case Nil
  then show ?case by (simp add: assign_names_def)
next
  case (Cons item items)
  obtain m p where item: "item = (m, p)" by (cases item)
  let ?bs = "case p of None \<Rightarrow> bones
             | Some name \<Rightarrow> if name \<notin> set (map pb_name bones) then bones
                 else update_bone name (\<lambda>pb. pb\<lparr>name_j := m\<rparr>) bones"
  have step: "tags_current S K ?bs"
  proof (cases p)
    case None
    with Cons.prems show ?thesis by simp
  next
    case (Some n)
    with Cons.prems item have "(m, Some n) \<in> S" by auto
    from tags_current_step [OF Cons.prems(1) this] Cons.prems(1) Some
    show ?thesis by simp
  qed
  have "assign_names (item # items) bones = assign_names items ?bs"
    by (simp add: assign_names_def item)
  moreover have "tags_current S K (assign_names items ?bs)"
    using step Cons.prems(2) by (intro Cons.IH) auto
  ultimately show ?case by simp
qed

lemma map_name_clear: "map pb_name (clear_mmd_pose_bone_names d bones) = map pb_name bones"
  by (simp add: clear_mmd_pose_bone_names_def)

lemma map_name_assign: "map pb_name (assign_names items bones) = map pb_name bones"
proof (induction items arbitrary: bones)
  case Nil
  then show ?case by (simp add: assign_names_def)
next
  case (Cons item items)
  obtain m p where item: "item = (m, p)" by (cases item)
  let ?bs = "case p of None \<Rightarrow> bones
             | Some name \<Rightarrow> if name \<notin> set (map pb_name bones) then bones
                 else update_bone name (\<lambda>pb. pb\<lparr>name_j := m\<rparr>) bones"
  have n: "map pb_name ?bs = map pb_name bones"
    by (cases p) (simp_all add: map_name_update_bone)
  have "assign_names (item # items) bones = assign_names items ?bs"
    by (simp add: assign_names_def item)
  with Cons.IH [of ?bs] n show ?case by simp
qed

lemma filter_distinct_key_le_one:
  "distinct (map f xs) \<Longrightarrow> length (filter (\<lambda>x. f x = a) xs) \<le> 1"
proof (induction xs)
  case Nil
  then show ?case by simp
next
  case (Cons x xs)
  show ?case
  proof (cases "f x = a")
    case True
    from Cons.prems have nin: "f x \<notin> f ` set xs" by simp
    have "\<forall>y \<in> set xs. f y \<noteq> a"
    proof
      fix y assume "y \<in> set xs"
      then have "f y \<in> f ` set xs" by (rule imageI)
      with nin True show "f y \<noteq> a" by metis
    qed
    then have "filter (\<lambda>x. f x = a) xs = []" by (simp add: filter_empty_conv)
    with True show ?thesis by simp
  next
    case False
    with Cons show ?thesis by simp
  qed
qed

lemma filter_length_mono:
  "(\<And>x. x \<in> set xs \<Longrightarrow> P x \<Longrightarrow> Q x) \<Longrightarrow> length (filter P xs) \<le> length (filter Q xs)"
  by (induction xs) auto

lemma update_bone_sets_tag:
  "n \<in> set (map pb_name bones) \<Longrightarrow>
   \<exists>pb \<in> set (update_bone n (\<lambda>pb. pb\<lparr>name_j := m\<rparr>) bones). pb_name pb = n \<and> name_j pb = m"
  by (induction bones) auto

lemma update_bone_keeps_others:
  "pb \<in> set bones \<Longrightarrow> pb_name pb \<noteq> n \<Longrightarrow> pb \<in> set (update_bone n f bones)"
  by (induction bones) auto

lemma tagged_kept:
  assumes "tagged n m bones" and "\<forall>m'. (m', Some n) \<in> set items \<longrightarrow> m' = m"
  shows "tagged n m (assign_names items bones)"
  using assms
proof (induction items arbitrary: bones)
  case Nil
  then show ?case by (simp add: assign_names_def)
next
  case (Cons item items)
  obtain m' p where item: "item = (m', p)" by (cases item)
  let ?bs = "case p of None \<Rightarrow> bones
             | Some name \<Rightarrow> if name \<notin> set (map pb_name bones) then bones
                 else update_bone name (\<lambda>pb. pb\<lparr>name_j := m'\<rparr>) bones"
  have step: "tagged n m ?bs"
  proof (cases p)
    case None
    with Cons.prems show ?thesis by simp
  next
    case (Some n')
    show ?thesis
    proof (cases "n' \<in> set (map pb_name bones)")
      case False
      with Some Cons.prems show ?thesis by simp
    next
      case True
      show ?thesis
      proof (cases "n' = n")
        case True
        with Some item Cons.prems(2) have "m' = m" by simp
        with update_bone_sets_tag [OF \<open>n' \<in> set (map pb_name bones)\<close>, of m'] True Some
          \<open>n' \<in> set (map pb_name bones)\<close>
        show ?thesis by (simp add: tagged_def)
      next
        case False
        from Cons.prems(1) obtain pb where pb: "pb \<in> set bones" "pb_name pb = n" "name_j pb = m"
          by (auto simp: tagged_def)
        with False have "pb \<in> set (update_bone n' (\<lambda>pb. pb\<lparr>name_j := m'\<rparr>) bones)"
          by (intro update_bone_keeps_others) auto
        with pb Some True show ?thesis by (auto simp: tagged_def)
      qed
    qed
  qed
  have "assign_names (item # items) bones = assign_names items ?bs"
    by (simp add: assign_names_def item)
  moreover have "tagged n m (assign_names items ?bs)"
    using step Cons.prems(2) by (intro Cons.IH) auto
  ultimately show ?case by simp
qed

lemma tagged_assigned:
  assumes "(m, Some n) \<in> set items" and "\<forall>m'. (m', Some n) \<in> set items \<longrightarrow> m' = m"
    and "n \<in> set (map pb_name bones)"
  shows "tagged n m (assign_names items bones)"
  using assms
proof (induction items arbitrary: bones)
  case Nil
  then show ?case by simp
next
  case (Cons item items)
  obtain m' p where item: "item = (m', p)" by (cases item)
  let ?bs = "case p of None \<Rightarrow> bones
             | Some name \<Rightarrow> if name \<notin> set (map pb_name bones) then bones
                 else update_bone name (\<lambda>pb. pb\<lparr>name_j := m'\<rparr>) bones"
  have eq: "assign_names (item # items) bones = assign_names items ?bs"
    by (simp add: assign_names_def item)
  have names: "map pb_name ?bs = map pb_name bones"
    by (cases p) (simp_all add: map_name_update_bone)
  have rest: "\<forall>m'. (m', Some n) \<in> set items \<longrightarrow> m' = m"
    using Cons.prems(2) by auto
  show ?case
  proof (cases "p = Some n")
    case True
    with item Cons.prems(2) have "m' = m" by simp
    with True Cons.prems(3) update_bone_sets_tag [OF Cons.prems(3), of m]
    have "tagged n m ?bs" by (simp add: tagged_def)
    from tagged_kept [OF this rest] eq show ?thesis by simp
  next
    case False
    with Cons.prems(1) item have "(m, Some n) \<in> set items" by auto
    moreover have "n \<in> set (map pb_name ?bs)"
      using Cons.prems(3) names by simp
    ultimately have "tagged n m (assign_names items ?bs)"
      using rest by (intro Cons.IH)
    with eq show ?thesis by simp
  qed
qed

text \<open>
  Claim C8. Let \<open>d\<close> be the dictionary that \<open>assign_mmd_bone_names\<close> builds from the bind
  descriptors and the overrides; its keys are the managed standard names. A tag is a
  non-empty \<open>name_j\<close> (the empty string is the cleared tag). In a rig whose pose bones
  have distinct names, after the call: the pose bones are the same bones by name; every
  pose bone that carries a managed tag is the bone that \<open>d\<close> maps that name to, so no
  tag of an earlier mapping is left, and a name mapped to \<open>None\<close> or to a bone that is not
  in the rig (by a descriptor or by an override) is on no bone; each managed name is the
  tag of at most one pose bone; and a managed name whose bone is in the rig and is the
  bone of no other managed name is the tag of that bone. The function has no failing
  branch.
\<close>

theorem assign_mmd_bone_names_no_stale:
  fixes rig :: RichArmatureObject and overrides :: "(string \<times> string) list option"
  defines "d \<equiv> mmd_bone_name2pose_bone_names (mmd_bind_infos rig) overrides"
    and "bones' \<equiv> pose_bones (assign_mmd_bone_names rig overrides)"
  assumes "distinct (map pb_name (pose_bones rig))"
  shows "map pb_name bones' = map pb_name (pose_bones rig)
     \<and> (\<forall>pb \<in> set bones'. name_j pb \<noteq> [] \<and> name_j pb \<in> set (map fst d)
           \<longrightarrow> map_of d (name_j pb) = Some (Some (pb_name pb)))
     \<and> (\<forall>m \<in> set (map fst d). m \<noteq> []
           \<longrightarrow> length (filter (\<lambda>pb. name_j pb = m) bones') \<le> 1)
     \<and> (\<forall>m n. map_of d m = Some (Some n) \<and> n \<in> set (map pb_name (pose_bones rig))
                \<and> (\<forall>m'. map_of d m' = Some (Some n) \<longrightarrow> m' = m)
           \<longrightarrow> (\<exists>pb \<in> set bones'. pb_name pb = n \<and> name_j pb = m))"
proof -
  have b: "bones' = assign_names d (clear_mmd_pose_bone_names d (pose_bones rig))"
    by (simp add: bones'_def d_def assign_mmd_bone_names_def Let_def)
  have names: "map pb_name bones' = map pb_name (pose_bones rig)"
    by (simp add: b map_name_assign map_name_clear)
  have dd: "distinct (map fst d)"
    unfolding d_def by (rule distinct_mmd_bone_name2pose_bone_names)
  have "tags_current (set d) (set (map fst d)) bones'"
    unfolding b by (intro tags_current_assign tags_current_clear) simp
  then have cur: "\<forall>pb \<in> set bones'. name_j pb \<noteq> [] \<and> name_j pb \<in> set (map fst d)
           \<longrightarrow> map_of d (name_j pb) = Some (Some (pb_name pb))"
    using dd by (auto simp: tags_current_def)
  have one: "\<forall>m \<in> set (map fst d). m \<noteq> []
           \<longrightarrow> length (filter (\<lambda>pb. name_j pb = m) bones') \<le> 1"
  proof (intro ballI impI)
    fix m assume m: "m \<in> set (map fst d)" and ne: "m \<noteq> []"
    show "length (filter (\<lambda>pb. name_j pb = m) bones') \<le> 1"
    proof (cases "map_of d m")
      case None
      with m show ?thesis by (simp add: map_of_eq_None_iff)
    next
      case (Some p)
      show ?thesis
      proof (cases p)
        case None
        with Some cur m ne have "\<forall>pb \<in> set bones'. name_j pb \<noteq> m" by auto
        then have "filter (\<lambda>pb. name_j pb = m) bones' = []" by (simp add: filter_empty_conv)
        then show ?thesis by simp
      next
        case (Some n)
        have "length (filter (\<lambda>pb. name_j pb = m) bones')
                \<le> length (filter (\<lambda>pb. pb_name pb = n) bones')"
        proof (rule filter_length_mono)
          fix pb assume "pb \<in> set bones'" "name_j pb = m"
          with cur m ne \<open>map_of d m = Some p\<close> Some show "pb_name pb = n" by auto
        qed
        also have "\<dots> \<le> 1"
          using assms(3) names by (intro filter_distinct_key_le_one) simp
        finally show ?thesis .
      qed
    qed
  qed
  have assigned: "\<forall>m n. map_of d m = Some (Some n) \<and> n \<in> set (map pb_name (pose_bones rig))
                \<and> (\<forall>m'. map_of d m' = Some (Some n) \<longrightarrow> m' = m)
           \<longrightarrow> (\<exists>pb \<in> set bones'. pb_name pb = n \<and> name_j pb = m)"
  proof (intro allI impI)
    fix m n
    assume a: "map_of d m = Some (Some n) \<and> n \<in> set (map pb_name (pose_bones rig))
                \<and> (\<forall>m'. map_of d m' = Some (Some n) \<longrightarrow> m' = m)"
    then have i: "(m, Some n) \<in> set d" by (auto dest: map_of_SomeD)
    have u: "\<forall>m'. (m', Some n) \<in> set d \<longrightarrow> m' = m"
      using a dd by auto
    have n: "n \<in> set (map pb_name (clear_mmd_pose_bone_names d (pose_bones rig)))"
      using a by (simp add: map_name_clear)
    from tagged_assigned [OF i u n]
    show "\<exists>pb \<in> set bones'. pb_name pb = n \<and> name_j pb = m"
      by (simp add: b tagged_def)
  qed
  from names cur one assigned show ?thesis by blast
qed

theorem assign_mmd_bone_names_no_stale_witness:
  "distinct (map pb_name (pose_bones example_bind_rig))
   \<and> mmd_bone_name2pose_bone_names (mmd_bind_infos example_bind_rig)
        (Some [([CHR 0xE5, CHR 0x8F, CHR 0xB3, CHR 0xE8, CHR 0x85, CHR 0x95], ''no_such_bone'')])
      = [([CHR 0xE5, CHR 0xB7, CHR 0xA6, CHR 0xE8, CHR 0x85, CHR 0x95], Some ''upper_arm.L''),
         ([CHR 0xE5, CHR 0xB7, CHR 0xA6, CHR 0xE8, CHR 0x85, CHR 0x95, CHR 0xE6, CHR 0x8D, CHR 0xA9], None),
         ([CHR 0xE5, CHR 0x8F, CHR 0xB3, CHR 0xE8, CHR 0x85, CHR 0x95], Some ''no_such_bone'')]
   \<and> pose_bones (assign_mmd_bone_names example_bind_rig
        (Some [([CHR 0xE5, CHR 0x8F, CHR 0xB3, CHR 0xE8, CHR 0x85, CHR 0x95], ''no_such_bone'')]))
      = [\<lparr>pb_name = ''upper_arm.L'', constraints = [],
           name_j = [CHR 0xE5, CHR 0xB7, CHR 0xA6, CHR 0xE8, CHR 0x85, CHR 0x95], props = []\<rparr>,
         \<lparr>pb_name = ''forearm.L'', constraints = [], name_j = [], props = []\<rparr>,
         \<lparr>pb_name = ''tail'', constraints = [], name_j = ''tail_j'', props = []\<rparr>]
   \<and> length (filter (\<lambda>pb. name_j pb = [CHR 0xE5, CHR 0xB7, CHR 0xA6, CHR 0xE8, CHR 0x85, CHR 0x95])
        (pose_bones (assign_mmd_bone_names example_bind_rig
           (Some [([CHR 0xE5, CHR 0x8F, CHR 0xB3, CHR 0xE8, CHR 0x85, CHR 0x95], ''no_such_bone'')]))))
      \<le> 1"
proof -
  have h: "distinct (map pb_name (pose_bones example_bind_rig))"
    by (simp add: example_bind_rig_def)
  have d: "mmd_bone_name2pose_bone_names (mmd_bind_infos example_bind_rig)
        (Some [([CHR 0xE5, CHR 0x8F, CHR 0xB3, CHR 0xE8, CHR 0x85, CHR 0x95], ''no_such_bone'')])
      = [([CHR 0xE5, CHR 0xB7, CHR 0xA6, CHR 0xE8, CHR 0x85, CHR 0x95], Some ''upper_arm.L''),
         ([CHR 0xE5, CHR 0xB7, CHR 0xA6, CHR 0xE8, CHR 0x85, CHR 0x95, CHR 0xE6, CHR 0x8D, CHR 0xA9], None),
         ([CHR 0xE5, CHR 0x8F, CHR 0xB3, CHR 0xE8, CHR 0x85, CHR 0x95], Some ''no_such_bone'')]"
    by (simp add: example_bind_rig_def mmd_bone_name2pose_bone_names_def)
  have r: "pose_bones (assign_mmd_bone_names example_bind_rig
        (Some [([CHR 0xE5, CHR 0x8F, CHR 0xB3, CHR 0xE8, CHR 0x85, CHR 0x95], ''no_such_bone'')]))
      = [\<lparr>pb_name = ''upper_arm.L'', constraints = [],
           name_j = [CHR 0xE5, CHR 0xB7, CHR 0xA6, CHR 0xE8, CHR 0x85, CHR 0x95], props = []\<rparr>,
         \<lparr>pb_name = ''forearm.L'', constraints = [], name_j = [], props = []\<rparr>,
         \<lparr>pb_name = ''tail'', constraints = [], name_j = ''tail_j'', props = []\<rparr>]"
    unfolding assign_mmd_bone_names_def d Let_def
    by (simp add: example_bind_rig_def clear_mmd_pose_bone_names_def assign_names_def)
  have "length (filter (\<lambda>pb. name_j pb = [CHR 0xE5, CHR 0xB7, CHR 0xA6, CHR 0xE8, CHR 0x85, CHR 0x95])
        (pose_bones (assign_mmd_bone_names example_bind_rig
           (Some [([CHR 0xE5, CHR 0x8F, CHR 0xB3, CHR 0xE8, CHR 0x85, CHR 0x95], ''no_such_bone'')]))))
      \<le> 1"
    using assign_mmd_bone_names_no_stale [OF h,
        of "Some [([CHR 0xE5, CHR 0x8F, CHR 0xB3, CHR 0xE8, CHR 0x85, CHR 0x95], ''no_such_bone'')]"]
    unfolding d by simp
  with h d r show ?thesis by blast
qed

subsection \<open>The bone catalog\<close>

lemma catalog_names_distinct: "distinct (map mmd_bone_name MMDBoneInfo_members)"
  unfolding MMDBoneInfo_members_def by simp

lemma catalog_left_entries_mirrored:
  "list_all (\<lambda>entry. \<not> is_left_name (mmd_bone_name entry)
                      \<or> has_right_counterpart MMDBoneInfo_members entry)
     MMDBoneInfo_members"
  unfolding MMDBoneInfo_members_def
  by (simp add: is_left_name_def has_right_counterpart_def mirrored_name_def startswith_def
      left_marker_def right_marker_def)

text \<open>
  Claim C9. No two members of \<open>MMDBoneInfo\<close> have the same standard name, and for every
  member whose name starts with the left marker there is a member whose name is the same
  with the right marker in its place and whose \<open>bone_type\<close> is the same.
\<close>

theorem catalog_unique_and_symmetric:
  "distinct (map mmd_bone_name MMDBoneInfo_members)
   \<and> (\<forall>entry \<in> set MMDBoneInfo_members. is_left_name (mmd_bone_name entry) \<longrightarrow>
        (\<exists>other \<in> set MMDBoneInfo_members.
           mmd_bone_name other = mirrored_name (mmd_bone_name entry)
           \<and> bone_type other = bone_type entry))"
  using catalog_names_distinct catalog_left_entries_mirrored
  by (auto simp: list_all_iff has_right_counterpart_def list_ex_iff)

theorem catalog_unique_and_symmetric_witness:
  "\<lparr>bone_type = SHOULDER_CANCEL,
     mmd_bone_name = [CHR 0xE5, CHR 0xB7, CHR 0xA6, CHR 0xE8, CHR 0x82, CHR 0xA9, CHR 0x43]\<rparr>
     \<in> set MMDBoneInfo_members
   \<and> is_left_name [CHR 0xE5, CHR 0xB7, CHR 0xA6, CHR 0xE8, CHR 0x82, CHR 0xA9, CHR 0x43]
   \<and> (\<exists>other \<in> set MMDBoneInfo_members.
         mmd_bone_name other = [CHR 0xE5, CHR 0x8F, CHR 0xB3, CHR 0xE8, CHR 0x82, CHR 0xA9, CHR 0x43]
         \<and> bone_type other = SHOULDER_CANCEL)"
proof -
  have m: "\<lparr>bone_type = SHOULDER_CANCEL,
     mmd_bone_name = [CHR 0xE5, CHR 0xB7, CHR 0xA6, CHR 0xE8, CHR 0x82, CHR 0xA9, CHR 0x43]\<rparr>
     \<in> set MMDBoneInfo_members"
    unfolding MMDBoneInfo_members_def by simp
  have l: "is_left_name [CHR 0xE5, CHR 0xB7, CHR 0xA6, CHR 0xE8, CHR 0x82, CHR 0xA9, CHR 0x43]"
    by (simp add: is_left_name_def startswith_def left_marker_def)
  have e: "mirrored_name [CHR 0xE5, CHR 0xB7, CHR 0xA6, CHR 0xE8, CHR 0x82, CHR 0xA9, CHR 0x43]
             = [CHR 0xE5, CHR 0x8F, CHR 0xB3, CHR 0xE8, CHR 0x82, CHR 0xA9, CHR 0x43]"
    by (simp add: mirrored_name_def left_marker_def right_marker_def)
  from catalog_unique_and_symmetric m l
  have "\<exists>other \<in> set MMDBoneInfo_members.
         mmd_bone_name other
           = mirrored_name [CHR 0xE5, CHR 0xB7, CHR 0xA6, CHR 0xE8, CHR 0x82, CHR 0xA9, CHR 0x43]
         \<and> bone_type other = SHOULDER_CANCEL"
    by fastforce
  with m l e show ?thesis by simp
qed


end
